theory Spec2Isabelle
  imports Main "HOL-Library.Sublist"
begin

section \<open>The feature catalog\<close>

text \<open>
  \<^verbatim>\<open>FEATURE_NAMES\<close> is a constant tuple of nine string literals and
  \<^verbatim>\<open>FeatureName\<close> is the union type of its members.  The union is a datatype
  here; \<open>FeatureName_str\<close> gives the string each member is at run time.
\<close>

datatype FeatureName =
  Users | Organizations | Projects | Repositories | WorkItems
  | Search | PullRequests | Pipelines | Wikis

fun FeatureName_str :: "FeatureName \<Rightarrow> string" where
  "FeatureName_str Users = ''users''"
| "FeatureName_str Organizations = ''organizations''"
| "FeatureName_str Projects = ''projects''"
| "FeatureName_str Repositories = ''repositories''"
| "FeatureName_str WorkItems = ''work-items''"
| "FeatureName_str Search = ''search''"
| "FeatureName_str PullRequests = ''pull-requests''"
| "FeatureName_str Pipelines = ''pipelines''"
| "FeatureName_str Wikis = ''wikis''"

definition FEATURE_NAMES :: "FeatureName list" where
  "FEATURE_NAMES =
     [Users, Organizations, Projects, Repositories, WorkItems,
      Search, PullRequests, Pipelines, Wikis]"

text \<open>
  \<^verbatim>\<open>FEATURE_TOOLS\<close> is an object literal.  Its entries are kept in the order of the
  literal, which is the order \<^verbatim>\<open>Object.entries\<close> enumerates them in (no key is an
  array index).
\<close>

definition FEATURE_TOOLS :: "(FeatureName \<times> string list) list" where
  "FEATURE_TOOLS =
     [(Users, [''get_me'']),
      (Organizations, [''list_organizations'']),
      (Projects, [''list_projects'', ''get_project'', ''get_project_details'']),
      (Repositories,
         [''get_repository'', ''get_repository_details'', ''list_repositories'',
          ''get_file_content'', ''get_all_repositories_tree'', ''get_repository_tree'',
          ''create_branch'', ''create_commit'', ''list_commits'']),
      (WorkItems,
         [''list_work_items'', ''get_work_item'', ''create_work_item'',
          ''update_work_item'', ''manage_work_item_link'']),
      (Search, [''search_code'', ''search_wiki'', ''search_work_items'']),
      (PullRequests,
         [''create_pull_request'', ''list_pull_requests'', ''get_pull_request_comments'',
          ''add_pull_request_comment'', ''update_pull_request'',
          ''get_pull_request_changes'', ''get_pull_request_checks'',
          ''update_pull_request_comment'']),
      (Pipelines,
         [''list_pipelines'', ''get_pipeline'', ''list_pipeline_runs'',
          ''get_pipeline_run'', ''download_pipeline_artifact'', ''pipeline_timeline'',
          ''get_pipeline_log'', ''trigger_pipeline'']),
      (Wikis,
         [''get_wikis'', ''get_wiki_page'', ''create_wiki'', ''update_wiki_page'',
          ''list_wiki_pages'', ''create_wiki_page''])]"

text \<open>\<^verbatim>\<open>FEATURE_TOOLS[f]\<close>: the value stored under the key \<open>f\<close>.\<close>

definition toolsOf :: "FeatureName \<Rightarrow> string list" where
  "toolsOf f = (case map_of FEATURE_TOOLS f of Some ts \<Rightarrow> ts | None \<Rightarrow> [])"

text \<open>
  The reverse index is the \<^verbatim>\<open>reduce\<close> over the entries: the accumulator starts
  empty, and the inner \<^verbatim>\<open>for\<close> loop stores the feature under every tool of the
  entry, a later store replacing an earlier one.  \<open>TOOL_TO_FEATURE\<close> holds the own
  properties of the object, which are its entries.
\<close>

definition assign_tools ::
  "(string \<rightharpoonup> FeatureName) \<Rightarrow> FeatureName \<times> string list \<Rightarrow> (string \<rightharpoonup> FeatureName)" where
  "assign_tools acc entry =
     (case entry of (feature, tools) \<Rightarrow> foldl (\<lambda>a tool. a(tool \<mapsto> feature)) acc tools)"

definition reverse_index ::
  "(FeatureName \<times> string list) list \<Rightarrow> (string \<rightharpoonup> FeatureName)" where
  "reverse_index entries = foldl assign_tools Map.empty entries"

definition TOOL_TO_FEATURE :: "string \<rightharpoonup> FeatureName" where
  "TOOL_TO_FEATURE = reverse_index FEATURE_TOOLS"

text \<open>
  The accumulator of the \<^verbatim>\<open>reduce\<close> is a plain object (\<^verbatim>\<open>{}\<close>), so reading
  \<^verbatim>\<open>TOOL_TO_FEATURE[toolName]\<close> for a name that is not an own property continues in
  \<^verbatim>\<open>Object.prototype\<close>.  Its members are listed with the text each of them
  converts to when it is used as a property key in turn: the functions print as native
  functions, and \<^verbatim>\<open>__proto__\<close> reads as \<^verbatim>\<open>Object.prototype\<close> itself, which prints
  as \<^verbatim>\<open>[object Object]\<close>.  All of them are truthy.
\<close>

definition Object_prototype :: "(string \<times> string) list" where
  "Object_prototype =
     [(''constructor'', ''function Object() { [native code] }''),
      (''__defineGetter__'', ''function __defineGetter__() { [native code] }''),
      (''__defineSetter__'', ''function __defineSetter__() { [native code] }''),
      (''hasOwnProperty'', ''function hasOwnProperty() { [native code] }''),
      (''__lookupGetter__'', ''function __lookupGetter__() { [native code] }''),
      (''__lookupSetter__'', ''function __lookupSetter__() { [native code] }''),
      (''isPrototypeOf'', ''function isPrototypeOf() { [native code] }''),
      (''propertyIsEnumerable'', ''function propertyIsEnumerable() { [native code] }''),
      (''toString'', ''function toString() { [native code] }''),
      (''valueOf'', ''function valueOf() { [native code] }''),
      (''__proto__'', ''[object Object]''),
      (''toLocaleString'', ''function toLocaleString() { [native code] }'')]"

text \<open>
  What \<^verbatim>\<open>TOOL_TO_FEATURE[toolName]\<close> evaluates to: the feature of an own entry, a
  member of the prototype (given by the text it converts to), or \<^verbatim>\<open>undefined\<close>
  (\<open>None\<close>).
\<close>

datatype looked_up = Feature FeatureName | Member string

definition TOOL_TO_FEATURE_read :: "string \<Rightarrow> looked_up option" where
  "TOOL_TO_FEATURE_read toolName =
     (case TOOL_TO_FEATURE toolName of
        Some f \<Rightarrow> Some (Feature f)
      | None \<Rightarrow>
          (case map_of Object_prototype toolName of
             Some printed \<Rightarrow> Some (Member printed)
           | None \<Rightarrow> None))"

text \<open>
  Truthiness of a looked-up value (the empty string is falsy), and the property key it
  converts to.
\<close>

fun truthy :: "looked_up \<Rightarrow> bool" where
  "truthy (Feature f) = (FeatureName_str f \<noteq> [])"
| "truthy (Member _) = True"

fun ToPropertyKey :: "looked_up \<Rightarrow> string" where
  "ToPropertyKey (Feature f) = FeatureName_str f"
| "ToPropertyKey (Member printed) = printed"

section \<open>The configuration\<close>

text \<open>
  A configuration has a \<^verbatim>\<open>features\<close> object from names to booleans and a
  \<^verbatim>\<open>tools\<close> object with the list \<^verbatim>\<open>disabled\<close>.  The source reads all three
  through optional chaining (\<^verbatim>\<open>config.features?.[f]\<close>,
  \<^verbatim>\<open>config.tools?.disabled?.includes\<close>), so each of them may be missing in the
  model.  A normalized configuration, which is what validation produces, has all three,
  and the keys of its \<^verbatim>\<open>features\<close> are names of the feature enumeration.
\<close>

record Tools =
  disabled :: "string list option"

record ToolsConfig =
  features :: "(string \<rightharpoonup> bool) option"
  tools :: "Tools option"

definition normalized :: "ToolsConfig \<Rightarrow> bool" where
  "normalized c =
     (case features c of
        None \<Rightarrow> False
      | Some fs \<Rightarrow>
          dom fs \<subseteq> set (map FeatureName_str FEATURE_NAMES)
          \<and> (case tools c of
                None \<Rightarrow> False
              | Some t \<Rightarrow> (case disabled t of None \<Rightarrow> False | Some _ \<Rightarrow> True)))"

definition DEFAULT_TOOLS_CONFIG :: ToolsConfig where
  "DEFAULT_TOOLS_CONFIG =
     \<lparr>features = Some Map.empty, tools = Some \<lparr>disabled = Some []\<rparr>\<rparr>"

section \<open>The resolver\<close>

text \<open>
  The body of \<^verbatim>\<open>isFeatureEnabled\<close> reads \<^verbatim>\<open>config.features\<close> under the property
  key its argument converts to.  The parameter is typed as a feature name, for which
  the key is the name; \<^verbatim>\<open>isToolEnabled\<close> passes whatever its lookup returned, so
  the body is given on the key first.  (No key that is read here is the name of a
  member of \<^verbatim>\<open>Object.prototype\<close>, so \<^verbatim>\<open>config.features\<close> is read by its own
  properties.)
\<close>

definition isFeatureEnabled_at :: "string \<Rightarrow> ToolsConfig \<Rightarrow> bool" where
  "isFeatureEnabled_at key config =
     (case features config of
        None \<Rightarrow> True
      | Some fs \<Rightarrow>
          (case fs key of
             None \<Rightarrow> True
           | Some b \<Rightarrow> b))"

definition isFeatureEnabled :: "FeatureName \<Rightarrow> ToolsConfig \<Rightarrow> bool" where
  "isFeatureEnabled featureName config =
     isFeatureEnabled_at (FeatureName_str featureName) config"

text \<open>
  \<^verbatim>\<open>featureName && ...\<close> tests the looked-up value for truthiness: an absent entry
  (\<^verbatim>\<open>undefined\<close>) is falsy.
\<close>

definition isToolEnabled :: "string \<Rightarrow> ToolsConfig \<Rightarrow> bool" where
  "isToolEnabled toolName config =
     (if (case TOOL_TO_FEATURE_read toolName of
            None \<Rightarrow> False
          | Some featureName \<Rightarrow>
              truthy featureName
              \<and> \<not> isFeatureEnabled_at (ToPropertyKey featureName) config)
      then False
      else if (case tools config of
                 None \<Rightarrow> False
               | Some t \<Rightarrow>
                   (case disabled t of
                      None \<Rightarrow> False
                    | Some ds \<Rightarrow> toolName \<in> set ds))
      then False
      else True)"

definition getEnabledTools :: "string list \<Rightarrow> ToolsConfig \<Rightarrow> string list" where
  "getEnabledTools allToolNames config =
     filter (\<lambda>toolName. isToolEnabled toolName config) allToolNames"

definition getDisabledTools :: "string list \<Rightarrow> ToolsConfig \<Rightarrow> string list" where
  "getDisabledTools allToolNames config =
     filter (\<lambda>toolName. \<not> isToolEnabled toolName config) allToolNames"

section \<open>JSON values\<close>

text \<open>
  The values \<^verbatim>\<open>JSON.parse\<close> returns.  The schema accepts no number anywhere, so
  the payload of a number is left as a type parameter.  An object is the list of its own
  properties in enumeration order; the keys of an object that \<^verbatim>\<open>JSON.parse\<close> returns
  are pairwise different, and reading a key (\<open>map_of\<close>) takes its entry.  A value
  that is missing (\<^verbatim>\<open>undefined\<close>) is \<open>None\<close> of \<open>'n json option\<close>.
\<close>

datatype 'n json =
  JNull
  | JBool bool
  | JNumber 'n
  | JString string
  | JArray "'n json list"
  | JObject "(string \<times> 'n json) list"

section \<open>The schema combinators\<close>

text \<open>
  The schema is built from the combinators of the validation library (zod, version 3).
  Each combinator is modelled by what its parser does on a JSON value: it returns either
  the typed output or the issues it found.  Issues are collected, not cut off at the
  first one: an object parses every key of its shape, a record every key and value, an
  array every element, and the issues of all of them are kept in that order.  An issue
  has the path at which it was found (keys and array indices) and a message; the
  messages are those of the library's default error map.
\<close>

datatype seg = Key string | Idx nat

datatype ZodIssue = ZodIssue (path: "seg list") (message: string)

type_synonym ('n, 'a) ZodType = "seg list \<Rightarrow> 'n json option \<Rightarrow> ZodIssue list + 'a"

fun getParsedType :: "'n json option \<Rightarrow> string" where
  "getParsedType None = ''undefined''"
| "getParsedType (Some JNull) = ''null''"
| "getParsedType (Some (JBool _)) = ''boolean''"
| "getParsedType (Some (JNumber _)) = ''number''"
| "getParsedType (Some (JString _)) = ''string''"
| "getParsedType (Some (JArray _)) = ''array''"
| "getParsedType (Some (JObject _)) = ''object''"

definition invalid_type :: "seg list \<Rightarrow> string \<Rightarrow> 'n json option \<Rightarrow> ZodIssue" where
  "invalid_type p expected v =
     ZodIssue p
       (case v of
          None \<Rightarrow> ''Required''
        | Some _ \<Rightarrow> ''Expected '' @ expected @ '', received '' @ getParsedType v)"

text \<open>\<^verbatim>\<open>Array.prototype.join\<close> on strings.\<close>

fun join :: "string \<Rightarrow> string list \<Rightarrow> string" where
  "join sep [] = []"
| "join sep [x] = x"
| "join sep (x # y # ys) = x @ sep @ join sep (y # ys)"

definition joinValues :: "string list \<Rightarrow> string" where
  "joinValues vs = join '' | '' (map (\<lambda>v. [CHR 39] @ v @ [CHR 39]) vs)"

definition invalid_enum_value :: "seg list \<Rightarrow> string list \<Rightarrow> string \<Rightarrow> ZodIssue" where
  "invalid_enum_value p options received =
     ZodIssue p
       (''Invalid enum value. Expected '' @ joinValues options @ '', received ''
        @ [CHR 39] @ received @ [CHR 39])"

definition z_string :: "('n, string) ZodType" where
  "z_string p v =
     (case v of Some (JString s) \<Rightarrow> Inr s | _ \<Rightarrow> Inl [invalid_type p ''string'' v])"

definition z_boolean :: "('n, bool) ZodType" where
  "z_boolean p v =
     (case v of Some (JBool b) \<Rightarrow> Inr b | _ \<Rightarrow> Inl [invalid_type p ''boolean'' v])"

definition z_enum :: "string list \<Rightarrow> ('n, string) ZodType" where
  "z_enum values p v =
     (case v of
        Some (JString s) \<Rightarrow>
          if s \<in> set values then Inr s else Inl [invalid_enum_value p values s]
      | _ \<Rightarrow> Inl [invalid_type p (joinValues values) v])"

text \<open>
  Merging the results of the parts of a container: the output exists when every part
  has one; otherwise the issues of all parts, in order.
\<close>

fun issues_of :: "ZodIssue list + 'a \<Rightarrow> ZodIssue list" where
  "issues_of (Inl is) = is"
| "issues_of (Inr _) = []"

fun merge_results :: "(ZodIssue list + 'a) list \<Rightarrow> ZodIssue list + 'a list" where
  "merge_results [] = Inr []"
| "merge_results (r # rs) =
     (case (r, merge_results rs) of
        (Inr a, Inr as) \<Rightarrow> Inr (a # as)
      | (_, rest) \<Rightarrow> Inl (issues_of r @ issues_of rest))"

definition merge_pair ::
  "ZodIssue list + 'a \<Rightarrow> ZodIssue list + 'b \<Rightarrow> ZodIssue list + ('a \<times> 'b)" where
  "merge_pair r1 r2 =
     (case (r1, r2) of
        (Inr a, Inr b) \<Rightarrow> Inr (a, b)
      | _ \<Rightarrow> Inl (issues_of r1 @ issues_of r2))"

definition z_array :: "('n, 'a) ZodType \<Rightarrow> ('n, 'a list) ZodType" where
  "z_array element p v =
     (case v of
        Some (JArray xs) \<Rightarrow>
          merge_results
            (map (\<lambda>(i, x). element (p @ [Idx i]) (Some x)) (enumerate 0 xs))
      | _ \<Rightarrow> Inl [invalid_type p ''array'' v])"

text \<open>
  A record parses each key (as a string) with the key schema and each value with the
  value schema, both at the path of that key, and stores the outputs in a fresh object.
\<close>

definition z_record ::
  "('n, string) ZodType \<Rightarrow> ('n, 'a) ZodType \<Rightarrow> ('n, string \<rightharpoonup> 'a) ZodType" where
  "z_record keyType valueType p v =
     (case v of
        Some (JObject kvs) \<Rightarrow>
          (case merge_results
                  (map (\<lambda>(k, x).
                          merge_pair (keyType (p @ [Key k]) (Some (JString k)))
                                     (valueType (p @ [Key k]) (Some x)))
                       kvs) of
             Inl is \<Rightarrow> Inl is
           | Inr pairs \<Rightarrow> Inr (foldl (\<lambda>m (k, a). m(k \<mapsto> a)) Map.empty pairs))
      | _ \<Rightarrow> Inl [invalid_type p ''object'' v])"

definition z_optional :: "('n, 'a) ZodType \<Rightarrow> ('n, 'a option) ZodType" where
  "z_optional inner p v =
     (case v of
        None \<Rightarrow> Inr None
      | Some _ \<Rightarrow> (case inner p v of Inl is \<Rightarrow> Inl is | Inr a \<Rightarrow> Inr (Some a)))"

text \<open>\<^verbatim>\<open>.default(d)\<close> replaces a missing input by \<open>d\<close> and parses it with the inner schema.\<close>

definition z_default :: "('n, 'a) ZodType \<Rightarrow> 'n json \<Rightarrow> ('n, 'a) ZodType" where
  "z_default inner d p v = inner p (case v of None \<Rightarrow> Some d | Some _ \<Rightarrow> v)"

text \<open>
  An object schema reads the keys of its shape from the input object, in the order of
  the shape, and builds the output from those keys alone: with the library's default
  policy an input key outside the shape is neither an issue nor copied.  The schema of
  this program has a shape of one key (\<^verbatim>\<open>tools\<close>) and a shape of two keys (the top
  level); \<open>mk\<close> builds the typed output.
\<close>

definition z_object1 ::
  "string \<Rightarrow> ('n, 'a) ZodType \<Rightarrow> ('a \<Rightarrow> 'r) \<Rightarrow> ('n, 'r) ZodType" where
  "z_object1 k1 t1 mk p v =
     (case v of
        Some (JObject kvs) \<Rightarrow>
          (case t1 (p @ [Key k1]) (map_of kvs k1) of
             Inl is \<Rightarrow> Inl is
           | Inr a \<Rightarrow> Inr (mk a))
      | _ \<Rightarrow> Inl [invalid_type p ''object'' v])"

definition z_object2 ::
  "string \<Rightarrow> ('n, 'a) ZodType \<Rightarrow> string \<Rightarrow> ('n, 'b) ZodType \<Rightarrow> ('a \<Rightarrow> 'b \<Rightarrow> 'r)
   \<Rightarrow> ('n, 'r) ZodType" where
  "z_object2 k1 t1 k2 t2 mk p v =
     (case v of
        Some (JObject kvs) \<Rightarrow>
          (case merge_pair (t1 (p @ [Key k1]) (map_of kvs k1))
                           (t2 (p @ [Key k2]) (map_of kvs k2)) of
             Inl is \<Rightarrow> Inl is
           | Inr (a, b) \<Rightarrow> Inr (mk a b))
      | _ \<Rightarrow> Inl [invalid_type p ''object'' v])"

section \<open>The schema of the configuration file\<close>

text \<open>
  The schema is one expression in the source; its three nested parts are named here:
  \<^verbatim>\<open>features\<close>, \<^verbatim>\<open>tools.disabled\<close> and \<^verbatim>\<open>tools\<close>.
\<close>

definition features_schema :: "('n, (string \<rightharpoonup> bool) option) ZodType" where
  "features_schema =
     z_default
       (z_optional (z_record (z_enum (map FeatureName_str FEATURE_NAMES)) z_boolean))
       (JObject [])"

definition disabled_schema :: "('n, string list option) ZodType" where
  "disabled_schema = z_default (z_optional (z_array z_string)) (JArray [])"

definition tools_schema :: "('n, Tools option) ZodType" where
  "tools_schema =
     z_default
       (z_optional (z_object1 ''disabled'' disabled_schema (\<lambda>d. \<lparr>disabled = d\<rparr>)))
       (JObject [(''disabled'', JArray [])])"

definition ToolsConfigSchema :: "('n, ToolsConfig) ZodType" where
  "ToolsConfigSchema =
     z_default
       (z_object2 ''features'' features_schema ''tools'' tools_schema
          (\<lambda>f t. \<lparr>features = f, tools = t\<rparr>))
       (JObject [])"

text \<open>\<^verbatim>\<open>ToolsConfigSchema.parse(raw)\<close>: the output, or the \<^verbatim>\<open>ZodError\<close> with the issues.\<close>

definition ToolsConfigSchema_parse :: "'n json option \<Rightarrow> ZodIssue list + ToolsConfig" where
  "ToolsConfigSchema_parse raw = ToolsConfigSchema [] raw"

section \<open>The loader\<close>

text \<open>
  What \<^verbatim>\<open>loadToolsConfig\<close> reads from its surroundings: the environment variable
  \<^verbatim>\<open>AZURE_DEVOPS_TOOLS_CONFIG\<close> (\<open>None\<close> when unset), the working directory,
  \<^verbatim>\<open>path.join\<close>, the two file-system calls and \<^verbatim>\<open>JSON.parse\<close>.  A failing read
  raises an error of the platform, of type \<open>'e\<close>; a failing \<^verbatim>\<open>JSON.parse\<close> raises a
  \<^verbatim>\<open>SyntaxError\<close>, given by its message.
\<close>

record ('e, 'n) Host =
  env_AZURE_DEVOPS_TOOLS_CONFIG :: "string option"
  cwd :: string
  path_join :: "string \<Rightarrow> string \<Rightarrow> string"
  existsSync :: "string \<Rightarrow> bool"
  readFileSync :: "string \<Rightarrow> 'e + string"
  JSON_parse :: "string \<Rightarrow> string + 'n json"

text \<open>
  What the loader throws: a new \<^verbatim>\<open>Error\<close> with a message, or the error it caught,
  thrown again.
\<close>

datatype 'e thrown = Error string | Rethrown 'e

text \<open>\<^verbatim>\<open>a || b\<close> on a string that may be undefined: the empty string is falsy too.\<close>

definition or_else :: "string option \<Rightarrow> string \<Rightarrow> string" where
  "or_else a b = (case a of None \<Rightarrow> b | Some s \<Rightarrow> if s = [] then b else s)"

definition effectivePath :: "('e, 'n) Host \<Rightarrow> string option \<Rightarrow> string" where
  "effectivePath h configPath =
     or_else configPath
       (or_else (env_AZURE_DEVOPS_TOOLS_CONFIG h)
          (path_join h (cwd h) ''tools.config.json''))"

text \<open>Decimal digits of a number, as \<^verbatim>\<open>join\<close> writes an array index.\<close>

fun string_of_nat :: "nat \<Rightarrow> string" where
  "string_of_nat n =
     (if n < 10 then [''0123456789'' ! n]
      else string_of_nat (n div 10) @ [''0123456789'' ! (n mod 10)])"

fun seg_str :: "seg \<Rightarrow> string" where
  "seg_str (Key k) = k"
| "seg_str (Idx i) = string_of_nat i"

definition format_issue :: "ZodIssue \<Rightarrow> string" where
  "format_issue i = ''  - '' @ join ''.'' (map seg_str (path i)) @ '': '' @ message i"

definition invalid_json_message :: "string \<Rightarrow> string \<Rightarrow> string" where
  "invalid_json_message p msg = ''Invalid JSON in tools config file at '' @ p @ '': '' @ msg"

definition invalid_config_message :: "string \<Rightarrow> ZodIssue list \<Rightarrow> string" where
  "invalid_config_message p issues =
     ''Invalid tools config file at '' @ p @ [CHR '':'', CHR 0x0A]
     @ join [CHR 0x0A] (map format_issue issues)"

text \<open>The lines written to the diagnostic stream after a successful load.\<close>

definition load_summary :: "string \<Rightarrow> ToolsConfig \<Rightarrow> string list" where
  "load_summary p parsedConfig =
     (let disabledFeatures = filter (\<lambda>f. \<not> isFeatureEnabled f parsedConfig) FEATURE_NAMES;
          disabledTools =
            (case tools parsedConfig of
               None \<Rightarrow> []
             | Some t \<Rightarrow> (case disabled t of None \<Rightarrow> [] | Some ds \<Rightarrow> ds))
      in [''DEBUG - Tools config loaded from: '' @ p @ [CHR 0x0A]]
         @ (if length disabledFeatures > 0
            then [''  Disabled features: ''
                  @ join '', '' (map FeatureName_str disabledFeatures) @ [CHR 0x0A]]
            else [])
         @ (if length disabledTools > 0
            then [''  Disabled tools: '' @ join '', '' disabledTools @ [CHR 0x0A]]
            else [])
         @ (if length disabledFeatures = 0 \<and> length disabledTools = 0
            then [''  All features and tools enabled'' @ [CHR 0x0A]]
            else []))"

text \<open>
  \<^verbatim>\<open>loadToolsConfig\<close> returns what it wrote to the diagnostic stream, and either the
  error it throws or the configuration.
\<close>

definition loadToolsConfig ::
  "('e, 'n) Host \<Rightarrow> string option \<Rightarrow> string list \<times> ('e thrown + ToolsConfig)" where
  "loadToolsConfig h configPath =
     (let p = effectivePath h configPath in
      if \<not> existsSync h p then ([], Inr DEFAULT_TOOLS_CONFIG)
      else
        (case readFileSync h p of
           Inl e \<Rightarrow> ([], Inl (Rethrown e))
         | Inr configContent \<Rightarrow>
             (case JSON_parse h configContent of
                Inl msg \<Rightarrow> ([], Inl (Error (invalid_json_message p msg)))
              | Inr rawConfig \<Rightarrow>
                  (case ToolsConfigSchema_parse (Some rawConfig) of
                     Inl issues \<Rightarrow> ([], Inl (Error (invalid_config_message p issues)))
                   | Inr parsedConfig \<Rightarrow>
                       (load_summary p parsedConfig, Inr parsedConfig)))))"

section \<open>The violations of the schema, as the specification lists them\<close>

text \<open>
  The specification of the validator, in its own words: \<^verbatim>\<open>features\<close>, if present,
  must be an object whose keys are each one of the closed feature enumeration and whose
  values are booleans; \<^verbatim>\<open>tools.disabled\<close>, if present, must be an array of strings.
  The functions below list the places (paths) at which a value breaks these rules: one
  place for a member of the wrong type, one for each key outside the enumeration, one
  for each value that is not a boolean, one for each array element that is not a
  string.  They are compared with the issues of the schema further down.
\<close>

fun is_bool :: "'n json \<Rightarrow> bool" where
  "is_bool (JBool _) = True"
| "is_bool _ = False"

fun is_string :: "'n json \<Rightarrow> bool" where
  "is_string (JString _) = True"
| "is_string _ = False"

definition spec_features_violations :: "seg list \<Rightarrow> 'n json option \<Rightarrow> seg list list" where
  "spec_features_violations p v =
     (case v of
        None \<Rightarrow> []
      | Some (JObject kvs) \<Rightarrow>
          concat
            (map (\<lambda>(k, x).
                    (if k \<in> set (map FeatureName_str FEATURE_NAMES) then [] else [p @ [Key k]])
                    @ (if is_bool x then [] else [p @ [Key k]]))
                 kvs)
      | Some _ \<Rightarrow> [p])"

definition spec_disabled_violations :: "seg list \<Rightarrow> 'n json option \<Rightarrow> seg list list" where
  "spec_disabled_violations p v =
     (case v of
        None \<Rightarrow> []
      | Some (JArray xs) \<Rightarrow>
          concat
            (map (\<lambda>(i, x). if is_string x then [] else [p @ [Idx i]]) (enumerate 0 xs))
      | Some _ \<Rightarrow> [p])"

definition spec_tools_violations :: "seg list \<Rightarrow> 'n json option \<Rightarrow> seg list list" where
  "spec_tools_violations p v =
     (case v of
        None \<Rightarrow> []
      | Some (JObject kvs) \<Rightarrow>
          spec_disabled_violations (p @ [Key ''disabled'']) (map_of kvs ''disabled'')
      | Some _ \<Rightarrow> [p])"

definition spec_violations :: "'n json option \<Rightarrow> seg list list" where
  "spec_violations v =
     (case v of
        None \<Rightarrow> []
      | Some (JObject kvs) \<Rightarrow>
          spec_features_violations [Key ''features''] (map_of kvs ''features'')
          @ spec_tools_violations [Key ''tools''] (map_of kvs ''tools'')
      | Some _ \<Rightarrow> [[]])"

section \<open>A host for concrete runs\<close>

text \<open>
  A host in the manner of the unit tests, which replace the file system: the
  environment variable, the existing paths and the content of each path are given; the
  working directory is \<^verbatim>\<open>/srv/app\<close>.  Its parser knows the text of four JSON
  documents, the last of them with four violations of the schema, and reports a syntax
  error on any other text, with the message of the place where parsing stops for two
  of them.
\<close>

definition sample_parse :: "string \<Rightarrow> string + int json" where
  \<open>sample_parse s =
     (if s = ''{}'' then Inr (JObject [])
      else if s = ''[]'' then Inr (JArray [])
      else if s = ''null'' then Inr JNull
      else if s = ''{"features":{"invalid-feature":true,"wikis":1},"tools":{"disabled":["a",2,"b",null]}}''
      then Inr (JObject
                  [(''features'',
                      JObject [(''invalid-feature'', JBool True), (''wikis'', JNumber 1)]),
                   (''tools'',
                      JObject [(''disabled'',
                                 JArray [JString ''a'', JNumber 2, JString ''b'', JNull])])])
      else if s = ''{ invalid json }'' then Inl ''Unexpected token i in JSON at position 2''
      else if s = [] then Inl ''Unexpected end of JSON input''
      else Inl ''Unexpected token'')\<close>

definition sample_host ::
  "string option \<Rightarrow> (string \<Rightarrow> bool) \<Rightarrow> (string \<Rightarrow> nat + string) \<Rightarrow> (nat, int) Host" where
  "sample_host env ex rd =
     \<lparr>env_AZURE_DEVOPS_TOOLS_CONFIG = env,
      cwd = ''/srv/app'',
      path_join = (\<lambda>a b. a @ ''/'' @ b),
      existsSync = ex,
      readFileSync = rd,
      JSON_parse = sample_parse\<rparr>"

section \<open>Properties of the catalog\<close>

text \<open>
  The inner loop of the reverse index stores one feature under every tool of a list;
  the outer fold keeps, for a tool, the feature of the last entry that lists it.  When
  no tool is listed twice, that is the one entry that lists it.
\<close>

lemma foldl_store:
  "foldl (\<lambda>a tool. a(tool \<mapsto> f)) acc ts t = (if t \<in> set ts then Some f else acc t)"
  by (induction ts arbitrary: acc) auto

lemma assign_tools_apply:
  "assign_tools acc (f, ts) t = (if t \<in> set ts then Some f else acc t)"
  by (simp add: assign_tools_def foldl_store)

lemma foldl_assign_absent:
  "\<forall>e \<in> set es. t \<notin> set (snd e) \<Longrightarrow> foldl assign_tools acc es t = acc t"
  by (induction es arbitrary: acc) (auto simp: assign_tools_apply)

lemma foldl_assign_present:
  "distinct (concat (map snd es)) \<Longrightarrow> (f, ts) \<in> set es \<Longrightarrow> t \<in> set ts \<Longrightarrow>
   foldl assign_tools acc es t = Some f"
proof (induction es arbitrary: acc)
  case Nil
  then show ?case by simp
next
  case (Cons e es)
  obtain g us where e: "e = (g, us)" by (cases e)
  show ?case
  proof (cases "(f, ts) \<in> set es")
    case True
    with Cons show ?thesis by simp
  next
    case False
    with Cons.prems e have same: "g = f" "us = ts" by auto
    from Cons.prems same e have "\<forall>e' \<in> set es. t \<notin> set (snd e')" by auto
    then have "foldl assign_tools (assign_tools acc e) es t = assign_tools acc e t"
      by (rule foldl_assign_absent)
    with Cons.prems same e show ?thesis by (simp add: assign_tools_apply)
  qed
qed

lemma catalog_distinct: "distinct (concat (map snd FEATURE_TOOLS))"
  by (simp add: FEATURE_TOOLS_def)

lemma catalog_keys: "map fst FEATURE_TOOLS = FEATURE_NAMES"
  by (simp add: FEATURE_TOOLS_def FEATURE_NAMES_def)

lemma all_features: "f \<in> set FEATURE_NAMES"
  by (cases f) (simp_all add: FEATURE_NAMES_def)

lemma distinct_names: "distinct FEATURE_NAMES"
  by (simp add: FEATURE_NAMES_def)

lemma toolsOf_entry: "(f, toolsOf f) \<in> set FEATURE_TOOLS"
proof -
  have "f \<in> fst ` set FEATURE_TOOLS"
    using all_features [of f] catalog_keys by (metis list.set_map)
  then obtain ts where "map_of FEATURE_TOOLS f = Some ts"
    by (metis domD dom_map_of_conv_image_fst)
  then show ?thesis by (simp add: toolsOf_def map_of_SomeD)
qed

lemma entry_toolsOf: "(f, ts) \<in> set FEATURE_TOOLS \<Longrightarrow> ts = toolsOf f"
proof -
  assume "(f, ts) \<in> set FEATURE_TOOLS"
  moreover have "distinct (map fst FEATURE_TOOLS)"
    by (simp add: catalog_keys distinct_names)
  ultimately have "map_of FEATURE_TOOLS f = Some ts" by simp
  then show ?thesis by (simp add: toolsOf_def)
qed

lemma TOOL_TO_FEATURE_owner: "t \<in> set (toolsOf f) \<Longrightarrow> TOOL_TO_FEATURE t = Some f"
  unfolding TOOL_TO_FEATURE_def reverse_index_def
  using catalog_distinct toolsOf_entry by (rule foldl_assign_present)

lemma TOOL_TO_FEATURE_none: "(\<And>f. t \<notin> set (toolsOf f)) \<Longrightarrow> TOOL_TO_FEATURE t = None"
proof -
  assume a: "\<And>f. t \<notin> set (toolsOf f)"
  have "\<forall>e \<in> set FEATURE_TOOLS. t \<notin> set (snd e)"
  proof
    fix e assume "e \<in> set FEATURE_TOOLS"
    then have "snd e = toolsOf (fst e)" using entry_toolsOf [of "fst e" "snd e"] by simp
    with a show "t \<notin> set (snd e)" by simp
  qed
  then show ?thesis
    unfolding TOOL_TO_FEATURE_def reverse_index_def
    by (simp add: foldl_assign_absent)
qed

lemma toolsOf_disjoint: "f \<noteq> g \<Longrightarrow> set (toolsOf f) \<inter> set (toolsOf g) = {}"
proof (rule ccontr)
  assume ne: "f \<noteq> g" and "set (toolsOf f) \<inter> set (toolsOf g) \<noteq> {}"
  then obtain t where tf: "t \<in> set (toolsOf f)" and tg: "t \<in> set (toolsOf g)" by blast
  from tf have "TOOL_TO_FEATURE t = Some f" by (rule TOOL_TO_FEATURE_owner)
  moreover from tg have "TOOL_TO_FEATURE t = Some g" by (rule TOOL_TO_FEATURE_owner)
  ultimately show False using ne by simp
qed

lemma TOOL_TO_FEATURE_member: "TOOL_TO_FEATURE t = Some f \<Longrightarrow> t \<in> set (toolsOf f)"
proof (rule ccontr)
  assume h: "TOOL_TO_FEATURE t = Some f" and n: "t \<notin> set (toolsOf f)"
  show False
  proof (cases "\<exists>g. t \<in> set (toolsOf g)")
    case True
    then obtain g where g: "t \<in> set (toolsOf g)" by blast
    then have "TOOL_TO_FEATURE t = Some g" by (rule TOOL_TO_FEATURE_owner)
    with h g n show False by simp
  next
    case False
    then have "TOOL_TO_FEATURE t = None" by (simp add: TOOL_TO_FEATURE_none)
    with h show False by simp
  qed
qed

lemma FeatureName_str_nonempty: "FeatureName_str f \<noteq> []"
  by (cases f) simp_all

lemma FeatureName_str_inj: "FeatureName_str f = FeatureName_str g \<Longrightarrow> f = g"
  by (cases f; cases g) simp_all


text \<open>
  Claim C3.  No tool name is in the tool lists of two different features.  The reverse
  index agrees with the forward mapping: every tool of a feature's list is mapped to
  that feature, and a tool in no feature's list has no entry.  (The forward mapping has
  exactly one entry per feature name, in the order of \<^verbatim>\<open>FEATURE_NAMES\<close>, and no tool
  is repeated anywhere in it.)
\<close>

theorem catalog_invariant:
  "(\<forall>f g. f \<noteq> g \<longrightarrow> set (toolsOf f) \<inter> set (toolsOf g) = {})
   \<and> (\<forall>f t. t \<in> set (toolsOf f) \<longrightarrow> TOOL_TO_FEATURE t = Some f)
   \<and> (\<forall>t. (\<forall>f. t \<notin> set (toolsOf f)) \<longrightarrow> TOOL_TO_FEATURE t = None)
   \<and> map fst FEATURE_TOOLS = FEATURE_NAMES
   \<and> distinct (concat (map snd FEATURE_TOOLS))"
  by (simp add: toolsOf_disjoint TOOL_TO_FEATURE_owner TOOL_TO_FEATURE_none catalog_keys
      catalog_distinct)

theorem catalog_invariant_witness:
  "Pipelines \<noteq> Wikis \<and> set (toolsOf Pipelines) \<inter> set (toolsOf Wikis) = {}
   \<and> ''trigger_pipeline'' \<in> set (toolsOf Pipelines)
   \<and> TOOL_TO_FEATURE ''trigger_pipeline'' = Some Pipelines
   \<and> (\<forall>f. ''unknown_tool'' \<notin> set (toolsOf f))
   \<and> TOOL_TO_FEATURE ''unknown_tool'' = None"
proof -
  have a: "''trigger_pipeline'' \<in> set (toolsOf Pipelines)"
    by (simp add: toolsOf_def FEATURE_TOOLS_def)
  have b: "\<forall>f. ''unknown_tool'' \<notin> set (toolsOf f)"
  proof
    fix f show "''unknown_tool'' \<notin> set (toolsOf f)"
      by (cases f) (simp_all add: toolsOf_def FEATURE_TOOLS_def)
  qed
  from a b catalog_invariant show ?thesis by simp
qed

section \<open>Properties of the resolver\<close>

text \<open>
  A normalized configuration is one whose three parts are present and whose feature
  keys are in the enumeration.
\<close>

lemma normalized_iff:
  "normalized c \<longleftrightarrow>
     (\<exists>fs tc ds. features c = Some fs \<and> dom fs \<subseteq> set (map FeatureName_str FEATURE_NAMES)
        \<and> tools c = Some tc \<and> disabled tc = Some ds)"
  by (auto simp: normalized_def simp del: set_map split: option.splits)

lemma isFeatureEnabled_eq:
  "isFeatureEnabled f c =
     (case features c of
        None \<Rightarrow> True
      | Some fs \<Rightarrow> (case fs (FeatureName_str f) of None \<Rightarrow> True | Some b \<Rightarrow> b))"
  by (simp add: isFeatureEnabled_def isFeatureEnabled_at_def)

text \<open>
  Reading the reverse index: an own entry is found first; the text of a prototype
  member is no feature name, so for a configuration whose feature keys are in the
  enumeration the check of the feature passes for it, as it does for a name that is
  not found at all.
\<close>

lemma read_own: "TOOL_TO_FEATURE t = Some f \<Longrightarrow> TOOL_TO_FEATURE_read t = Some (Feature f)"
  by (simp add: TOOL_TO_FEATURE_read_def)

lemma read_inherited:
  "TOOL_TO_FEATURE t = None \<Longrightarrow>
   TOOL_TO_FEATURE_read t = map_option Member (map_of Object_prototype t)"
  by (simp add: TOOL_TO_FEATURE_read_def split: option.splits)

lemma member_text_no_feature:
  "map_of Object_prototype t = Some key \<Longrightarrow> key \<notin> set (map FeatureName_str FEATURE_NAMES)"
  by (auto simp: Object_prototype_def FEATURE_NAMES_def split: if_splits)

lemma member_enabled:
  assumes "features c = Some fs" and "dom fs \<subseteq> set (map FeatureName_str FEATURE_NAMES)"
    and "map_of Object_prototype t = Some key"
  shows "isFeatureEnabled_at key c"
proof -
  from assms(3) have "key \<notin> set (map FeatureName_str FEATURE_NAMES)"
    by (rule member_text_no_feature)
  with assms(2) have "fs key = None" by blast
  with assms(1) show ?thesis by (simp add: isFeatureEnabled_at_def)
qed

lemma isToolEnabled_eq:
  assumes "features c = Some fs" and "dom fs \<subseteq> set (map FeatureName_str FEATURE_NAMES)"
    and "tools c = Some tc" and "disabled tc = Some ds"
  shows "isToolEnabled t c \<longleftrightarrow>
           \<not> (\<exists>f. TOOL_TO_FEATURE t = Some f \<and> \<not> isFeatureEnabled f c) \<and> t \<notin> set ds"
proof (cases "TOOL_TO_FEATURE t")
  case (Some f)
  with assms(3,4) show ?thesis
    by (simp add: isToolEnabled_def read_own FeatureName_str_nonempty isFeatureEnabled_def)
next
  case None
  note not_own = this
  show ?thesis
  proof (cases "map_of Object_prototype t")
    case (Some key)
    with assms have "isFeatureEnabled_at key c" by (simp add: member_enabled)
    with not_own Some assms(3,4) show ?thesis
      by (simp add: isToolEnabled_def read_inherited)
  next
    case None
    with not_own assms(3,4) show ?thesis
      by (simp add: isToolEnabled_def read_inherited)
  qed
qed

text \<open>
  The restriction on the feature keys is needed: with a key that is the text of a
  prototype member, the tool of that member's name is disabled although no feature
  owns it.
\<close>

lemma prototype_key_disables:
  "isToolEnabled ''__proto__''
     \<lparr>features = Some [''[object Object]'' \<mapsto> False], tools = Some \<lparr>disabled = Some []\<rparr>\<rparr>
   = False"
proof -
  have "TOOL_TO_FEATURE ''__proto__'' = None"
  proof (rule TOOL_TO_FEATURE_none)
    fix f show "''__proto__'' \<notin> set (toolsOf f)"
      by (cases f) (simp_all add: toolsOf_def FEATURE_TOOLS_def)
  qed
  then have "TOOL_TO_FEATURE_read ''__proto__'' = Some (Member ''[object Object]'')"
    by (simp add: read_inherited Object_prototype_def)
  then show ?thesis by (simp add: isToolEnabled_def isFeatureEnabled_at_def)
qed

text \<open>
  Claim C6.  For a configuration with a \<^verbatim>\<open>features\<close> object, \<^verbatim>\<open>isFeatureEnabled\<close>
  returns the value stored under the feature's name when there is one and \<open>True\<close> when
  there is none; on the configuration with no feature entry and no disabled tool it
  returns \<open>True\<close> for every feature.
\<close>

theorem isFeatureEnabled_lookup:
  "(features c = Some fs \<longrightarrow>
      isFeatureEnabled f c = (case fs (FeatureName_str f) of None \<Rightarrow> True | Some b \<Rightarrow> b))
   \<and> isFeatureEnabled f \<lparr>features = Some Map.empty, tools = Some \<lparr>disabled = Some []\<rparr>\<rparr> = True"
  by (simp add: isFeatureEnabled_eq)

theorem isFeatureEnabled_lookup_witness:
  "features \<lparr>features = Some [''pipelines'' \<mapsto> False], tools = Some \<lparr>disabled = Some []\<rparr>\<rparr>
     = Some [''pipelines'' \<mapsto> False]
   \<and> isFeatureEnabled Pipelines
        \<lparr>features = Some [''pipelines'' \<mapsto> False], tools = Some \<lparr>disabled = Some []\<rparr>\<rparr> = False
   \<and> isFeatureEnabled Wikis
        \<lparr>features = Some [''pipelines'' \<mapsto> False], tools = Some \<lparr>disabled = Some []\<rparr>\<rparr> = True"
  using isFeatureEnabled_lookup
    [of "\<lparr>features = Some [''pipelines'' \<mapsto> False], tools = Some \<lparr>disabled = Some []\<rparr>\<rparr>"
        "[''pipelines'' \<mapsto> False]" Pipelines]
    isFeatureEnabled_lookup
    [of "\<lparr>features = Some [''pipelines'' \<mapsto> False], tools = Some \<lparr>disabled = Some []\<rparr>\<rparr>"
        "[''pipelines'' \<mapsto> False]" Wikis]
  by simp

text \<open>
  Claim C1.  For a normalized configuration (its \<^verbatim>\<open>features\<close>, \<^verbatim>\<open>tools\<close> and
  \<^verbatim>\<open>tools.disabled\<close> are present, and the keys of \<^verbatim>\<open>features\<close> are names of
  the feature enumeration, as validation ensures), \<^verbatim>\<open>isToolEnabled\<close> returns
  \<open>False\<close> when the catalog lists the tool under a feature that is not enabled,
  \<open>False\<close> when the tool is in \<^verbatim>\<open>tools.disabled\<close>, and \<open>True\<close> otherwise.  In
  particular every tool of a feature whose entry is \<open>False\<close> is disabled, and a tool
  that no feature lists and that is not in \<^verbatim>\<open>tools.disabled\<close> is enabled, also when
  its name is the name of a member of \<^verbatim>\<open>Object.prototype\<close>.
\<close>

theorem isToolEnabled_decision:
  assumes "features c = Some fs" and "dom fs \<subseteq> set (map FeatureName_str FEATURE_NAMES)"
    and "tools c = Some tc" and "disabled tc = Some ds"
  shows "isToolEnabled t c =
           (if \<exists>f. t \<in> set (toolsOf f) \<and> \<not> isFeatureEnabled f c then False
            else if t \<in> set ds then False
            else True)
         \<and> (\<forall>f. fs (FeatureName_str f) = Some False \<longrightarrow>
               (\<forall>u \<in> set (toolsOf f). isToolEnabled u c = False))
         \<and> ((\<forall>f. t \<notin> set (toolsOf f)) \<and> t \<notin> set ds \<longrightarrow> isToolEnabled t c = True)"
proof (intro conjI allI impI ballI)
  have owner: "(\<exists>f. TOOL_TO_FEATURE t = Some f \<and> P f) \<longleftrightarrow> (\<exists>f. t \<in> set (toolsOf f) \<and> P f)" for P
    using TOOL_TO_FEATURE_owner TOOL_TO_FEATURE_member by blast
  show "isToolEnabled t c =
           (if \<exists>f. t \<in> set (toolsOf f) \<and> \<not> isFeatureEnabled f c then False
            else if t \<in> set ds then False
            else True)"
    unfolding owner [symmetric] isToolEnabled_eq [OF assms] by auto
next
  fix f u
  assume off: "fs (FeatureName_str f) = Some False" and u: "u \<in> set (toolsOf f)"
  from u have "TOOL_TO_FEATURE u = Some f" by (rule TOOL_TO_FEATURE_owner)
  moreover from off assms(1) have "\<not> isFeatureEnabled f c" by (simp add: isFeatureEnabled_eq)
  ultimately show "isToolEnabled u c = False"
    unfolding isToolEnabled_eq [OF assms] by simp
next
  assume free: "(\<forall>f. t \<notin> set (toolsOf f)) \<and> t \<notin> set ds"
  then have "TOOL_TO_FEATURE t = None" by (simp add: TOOL_TO_FEATURE_none)
  with free show "isToolEnabled t c = True"
    unfolding isToolEnabled_eq [OF assms] by simp
qed

theorem isToolEnabled_decision_witness:
  "dom [''pipelines'' \<mapsto> False] \<subseteq> set (map FeatureName_str FEATURE_NAMES)
   \<and> [''pipelines'' \<mapsto> False] (FeatureName_str Pipelines) = Some False
   \<and> ''trigger_pipeline'' \<in> set (toolsOf Pipelines)
   \<and> isToolEnabled ''trigger_pipeline''
        \<lparr>features = Some [''pipelines'' \<mapsto> False],
         tools = Some \<lparr>disabled = Some [''create_wiki'']\<rparr>\<rparr> = False
   \<and> (\<forall>f. ''unknown_tool'' \<notin> set (toolsOf f))
   \<and> ''unknown_tool'' \<notin> set [''create_wiki'']
   \<and> isToolEnabled ''unknown_tool''
        \<lparr>features = Some [''pipelines'' \<mapsto> False],
         tools = Some \<lparr>disabled = Some [''create_wiki'']\<rparr>\<rparr> = True
   \<and> (\<forall>f. ''__proto__'' \<notin> set (toolsOf f))
   \<and> isToolEnabled ''__proto__''
        \<lparr>features = Some [''pipelines'' \<mapsto> False],
         tools = Some \<lparr>disabled = Some [''create_wiki'']\<rparr>\<rparr> = True
   \<and> isToolEnabled ''create_wiki''
        \<lparr>features = Some [''pipelines'' \<mapsto> False],
         tools = Some \<lparr>disabled = Some [''create_wiki'']\<rparr>\<rparr> = False"
proof -
  let ?c = "\<lparr>features = Some [''pipelines'' \<mapsto> False],
             tools = Some \<lparr>disabled = Some [''create_wiki'']\<rparr>\<rparr>"
  have keys: "dom [''pipelines'' \<mapsto> False] \<subseteq> set (map FeatureName_str FEATURE_NAMES)"
    by (simp add: FEATURE_NAMES_def)
  have hyps: "features ?c = Some [''pipelines'' \<mapsto> False]"
    "dom [''pipelines'' \<mapsto> False] \<subseteq> set (map FeatureName_str FEATURE_NAMES)"
    "tools ?c = Some \<lparr>disabled = Some [''create_wiki'']\<rparr>"
    "disabled \<lparr>disabled = Some [''create_wiki'']\<rparr> = Some [''create_wiki'']"
    using keys by simp_all
  note unknown = isToolEnabled_decision [OF hyps, of "''unknown_tool''"]
  note proto = isToolEnabled_decision [OF hyps, of "''__proto__''"]
  note listed = isToolEnabled_decision [OF hyps, of "''create_wiki''"]
  have off: "[''pipelines'' \<mapsto> False] (FeatureName_str Pipelines) = Some False"
    by simp
  have a: "''trigger_pipeline'' \<in> set (toolsOf Pipelines)"
    by (simp add: toolsOf_def FEATURE_TOOLS_def)
  have b: "\<forall>f. ''unknown_tool'' \<notin> set (toolsOf f)"
  proof
    fix f show "''unknown_tool'' \<notin> set (toolsOf f)"
      by (cases f) (simp_all add: toolsOf_def FEATURE_TOOLS_def)
  qed
  have p: "\<forall>f. ''__proto__'' \<notin> set (toolsOf f)"
  proof
    fix f show "''__proto__'' \<notin> set (toolsOf f)"
      by (cases f) (simp_all add: toolsOf_def FEATURE_TOOLS_def)
  qed
  from unknown have
    "\<forall>f. [''pipelines'' \<mapsto> False] (FeatureName_str f) = Some False \<longrightarrow>
       (\<forall>u \<in> set (toolsOf f). isToolEnabled u ?c = False)"
    by blast
  with off a have c1: "isToolEnabled ''trigger_pipeline'' ?c = False" by blast
  from unknown b have c2: "isToolEnabled ''unknown_tool'' ?c = True" by simp
  from proto p have c3: "isToolEnabled ''__proto__'' ?c = True" by simp
  from listed [THEN conjunct1] have c4: "isToolEnabled ''create_wiki'' ?c = False"
    by (simp split: if_splits)
  from keys off a b p c1 c2 c3 c4 show ?thesis by simp
qed

text \<open>
  Claim C2.  \<^verbatim>\<open>getEnabledTools\<close> and \<^verbatim>\<open>getDisabledTools\<close> split the input list:
  as sets their union is the input and their intersection is empty; each is a
  subsequence of the input (the input order is kept); a name is in the enabled output
  exactly when it is in the input and \<^verbatim>\<open>isToolEnabled\<close> holds for it, and in the
  disabled output exactly when it is in the input and \<^verbatim>\<open>isToolEnabled\<close> fails; the
  lengths add up.  This holds for every configuration, normalized or not.
\<close>

theorem subsets_partition:
  "set (getEnabledTools L c) \<union> set (getDisabledTools L c) = set L
   \<and> set (getEnabledTools L c) \<inter> set (getDisabledTools L c) = {}
   \<and> subseq (getEnabledTools L c) L
   \<and> subseq (getDisabledTools L c) L
   \<and> (\<forall>t. t \<in> set (getEnabledTools L c) \<longleftrightarrow> t \<in> set L \<and> isToolEnabled t c)
   \<and> (\<forall>t. t \<in> set (getDisabledTools L c) \<longleftrightarrow> t \<in> set L \<and> \<not> isToolEnabled t c)
   \<and> length (getEnabledTools L c) + length (getDisabledTools L c) = length L"
proof -
  have "set (getEnabledTools L c) \<union> set (getDisabledTools L c) = set L"
    by (auto simp: getEnabledTools_def getDisabledTools_def)
  moreover have "set (getEnabledTools L c) \<inter> set (getDisabledTools L c) = {}"
    by (auto simp: getEnabledTools_def getDisabledTools_def)
  moreover have "subseq (getEnabledTools L c) L" "subseq (getDisabledTools L c) L"
    by (simp_all add: getEnabledTools_def getDisabledTools_def)
  moreover have "length (getEnabledTools L c) + length (getDisabledTools L c) = length L"
    by (simp add: getEnabledTools_def getDisabledTools_def sum_length_filter_compl)
  ultimately show ?thesis
    by (simp add: getEnabledTools_def getDisabledTools_def)
qed

theorem subsets_partition_witness:
  "set (getEnabledTools [''list_pipelines'', ''trigger_pipeline'', ''get_wiki_page'']
          \<lparr>features = Some [''pipelines'' \<mapsto> False], tools = Some \<lparr>disabled = Some []\<rparr>\<rparr>)
     \<union> set (getDisabledTools [''list_pipelines'', ''trigger_pipeline'', ''get_wiki_page'']
          \<lparr>features = Some [''pipelines'' \<mapsto> False], tools = Some \<lparr>disabled = Some []\<rparr>\<rparr>)
     = set [''list_pipelines'', ''trigger_pipeline'', ''get_wiki_page'']
   \<and> getEnabledTools [''list_pipelines'', ''trigger_pipeline'', ''get_wiki_page'']
        \<lparr>features = Some [''pipelines'' \<mapsto> False], tools = Some \<lparr>disabled = Some []\<rparr>\<rparr>
       = [''get_wiki_page'']
   \<and> getDisabledTools [''list_pipelines'', ''trigger_pipeline'', ''get_wiki_page'']
        \<lparr>features = Some [''pipelines'' \<mapsto> False], tools = Some \<lparr>disabled = Some []\<rparr>\<rparr>
       = [''list_pipelines'', ''trigger_pipeline'']"
proof -
  let ?c = "\<lparr>features = Some [''pipelines'' \<mapsto> False], tools = Some \<lparr>disabled = Some []\<rparr>\<rparr>"
  let ?L = "[''list_pipelines'', ''trigger_pipeline'', ''get_wiki_page'']"
  have owners: "TOOL_TO_FEATURE ''list_pipelines'' = Some Pipelines"
    "TOOL_TO_FEATURE ''trigger_pipeline'' = Some Pipelines"
    "TOOL_TO_FEATURE ''get_wiki_page'' = Some Wikis"
    by (rule TOOL_TO_FEATURE_owner, simp add: toolsOf_def FEATURE_TOOLS_def)+
  have "isToolEnabled ''list_pipelines'' ?c = False"
    "isToolEnabled ''trigger_pipeline'' ?c = False"
    "isToolEnabled ''get_wiki_page'' ?c = True"
    by (simp_all add: isToolEnabled_def isFeatureEnabled_at_def owners [THEN read_own])
  then have "getEnabledTools ?L ?c = [''get_wiki_page'']"
    and "getDisabledTools ?L ?c = [''list_pipelines'', ''trigger_pipeline'']"
    by (simp_all add: getEnabledTools_def getDisabledTools_def)
  with subsets_partition [of ?L ?c] show ?thesis by simp
qed

section \<open>Properties of the schema\<close>

text \<open>
  How results are merged: the issues of a container are the issues of its parts, in
  order, and a container fails exactly when one of its parts fails.
\<close>

lemma issues_of_map_sum [simp]:
  "issues_of (case r of Inl is \<Rightarrow> Inl is | Inr a \<Rightarrow> Inr (f a)) = issues_of r"
  by (cases r) simp_all

lemma isl_map_sum [simp]:
  "isl (case r of Inl is \<Rightarrow> Inl is | Inr a \<Rightarrow> Inr (f a)) = isl r"
  by (cases r) simp_all

lemma issues_of_merge_results:
  "issues_of (merge_results rs) = concat (map issues_of rs)"
  by (induction rs) (auto split: sum.splits)

lemma isl_merge_results:
  "isl (merge_results rs) \<longleftrightarrow> (\<exists>r \<in> set rs. isl r)"
  by (induction rs) (auto split: sum.splits)

lemma issues_of_merge_pair:
  "issues_of (merge_pair a b) = issues_of a @ issues_of b"
  by (auto simp: merge_pair_def split: sum.splits)

lemma isl_merge_pair: "isl (merge_pair a b) \<longleftrightarrow> isl a \<or> isl b"
  by (auto simp: merge_pair_def split: sum.splits)

text \<open>
  The issues of the leaves and of the record of feature overrides; the places of the
  latter are those the specification lists for \<^verbatim>\<open>features\<close>.
\<close>

lemma z_boolean_issues:
  "issues_of (z_boolean p (Some x)) = (if is_bool x then [] else [invalid_type p ''boolean'' (Some x)])"
  by (cases x) (simp_all add: z_boolean_def)

lemma z_string_issues:
  "issues_of (z_string p (Some x)) = (if is_string x then [] else [invalid_type p ''string'' (Some x)])"
  by (cases x) (simp_all add: z_string_def)

lemma z_enum_issues:
  "issues_of (z_enum vs p (Some (JString k))) = (if k \<in> set vs then [] else [invalid_enum_value p vs k])"
  by (simp add: z_enum_def)

lemma path_invalid_type [simp]: "path (invalid_type p e v) = p"
  by (simp add: invalid_type_def)

lemma path_invalid_enum_value [simp]: "path (invalid_enum_value p vs k) = p"
  by (simp add: invalid_enum_value_def)

lemma z_record_issues:
  "issues_of (z_record (z_enum vs) z_boolean p (Some (JObject kvs))) =
     concat (map (\<lambda>(k, x).
        (if k \<in> set vs then [] else [invalid_enum_value (p @ [Key k]) vs k])
        @ (if is_bool x then [] else [invalid_type (p @ [Key k]) ''boolean'' (Some x)])) kvs)"
  by (simp add: z_record_def issues_of_merge_results issues_of_merge_pair z_enum_issues
      z_boolean_issues comp_def case_prod_unfold)

lemma record_schema_issues:
  "issues_of (z_default (z_optional (z_record (z_enum vs) z_boolean)) (JObject []) p v) =
     (case v of
        None \<Rightarrow> []
      | Some (JObject kvs) \<Rightarrow>
          concat (map (\<lambda>(k, x).
            (if k \<in> set vs then [] else [invalid_enum_value (p @ [Key k]) vs k])
            @ (if is_bool x then [] else [invalid_type (p @ [Key k]) ''boolean'' (Some x)])) kvs)
      | Some _ \<Rightarrow> [invalid_type p ''object'' v])"
proof (cases v)
  case None
  then show ?thesis
    by (simp add: z_default_def z_optional_def z_record_def)
next
  case (Some j)
  then show ?thesis
    by (cases j) (simp_all add: z_default_def z_optional_def z_record_issues,
        simp_all add: z_record_def)
qed

lemma entry_paths:
  "map path (concat (map (\<lambda>(k, x).
            (if k \<in> set vs then [] else [invalid_enum_value (p @ [Key k]) vs k])
            @ (if is_bool x then [] else [invalid_type (p @ [Key k]) ''boolean'' (Some x)])) kvs))
     = concat (map (\<lambda>(k, x). (if k \<in> set vs then [] else [p @ [Key k]])
                    @ (if is_bool x then [] else [p @ [Key k]])) kvs)"
  by (induction kvs) auto

lemma features_schema_paths:
  "map path (issues_of (features_schema p v)) = spec_features_violations p v"
  unfolding features_schema_def spec_features_violations_def record_schema_issues
  by (simp add: entry_paths del: set_map split: option.splits json.splits)

text \<open>
  A schema fails exactly when it reports an issue: this holds for the leaves and is
  kept by every combinator, so it holds for the schema of the configuration file.
\<close>

lemma merge_results_exact:
  assumes "\<And>r. r \<in> set rs \<Longrightarrow> isl r \<longleftrightarrow> issues_of r \<noteq> []"
  shows "isl (merge_results rs) \<longleftrightarrow> issues_of (merge_results rs) \<noteq> []"
  using assms by (auto simp: isl_merge_results issues_of_merge_results)

lemma merge_pair_exact:
  assumes "isl a \<longleftrightarrow> issues_of a \<noteq> []" and "isl b \<longleftrightarrow> issues_of b \<noteq> []"
  shows "isl (merge_pair a b) \<longleftrightarrow> issues_of (merge_pair a b) \<noteq> []"
  using assms by (simp add: isl_merge_pair issues_of_merge_pair)

lemma z_boolean_exact: "isl (z_boolean p v) \<longleftrightarrow> issues_of (z_boolean p v) \<noteq> []"
  by (simp add: z_boolean_def split: option.splits json.splits)

lemma z_string_exact: "isl (z_string p v) \<longleftrightarrow> issues_of (z_string p v) \<noteq> []"
  by (simp add: z_string_def split: option.splits json.splits)

lemma z_enum_exact: "isl (z_enum vs p v) \<longleftrightarrow> issues_of (z_enum vs p v) \<noteq> []"
  by (simp add: z_enum_def split: option.splits json.splits)

lemma z_optional_exact:
  assumes "\<And>p v. isl (t p v) \<longleftrightarrow> issues_of (t p v) \<noteq> []"
  shows "isl (z_optional t p v) \<longleftrightarrow> issues_of (z_optional t p v) \<noteq> []"
  using assms by (simp add: z_optional_def split: option.splits)

lemma z_default_exact:
  assumes "\<And>p v. isl (t p v) \<longleftrightarrow> issues_of (t p v) \<noteq> []"
  shows "isl (z_default t d p v) \<longleftrightarrow> issues_of (z_default t d p v) \<noteq> []"
  using assms by (simp add: z_default_def)

lemma z_array_exact:
  assumes "\<And>p v. isl (t p v) \<longleftrightarrow> issues_of (t p v) \<noteq> []"
  shows "isl (z_array t p v) \<longleftrightarrow> issues_of (z_array t p v) \<noteq> []"
proof (cases "\<exists>xs. v = Some (JArray xs)")
  case True
  then obtain xs where v: "v = Some (JArray xs)" by blast
  show ?thesis
    unfolding z_array_def v
    by (simp, rule merge_results_exact) (auto simp: assms)
next
  case False
  then show ?thesis
    by (simp add: z_array_def split: option.splits json.splits)
qed

lemma z_record_exact:
  assumes "\<And>p v. isl (kt p v) \<longleftrightarrow> issues_of (kt p v) \<noteq> []"
    and "\<And>p v. isl (vt p v) \<longleftrightarrow> issues_of (vt p v) \<noteq> []"
  shows "isl (z_record kt vt p v) \<longleftrightarrow> issues_of (z_record kt vt p v) \<noteq> []"
proof (cases "\<exists>kvs. v = Some (JObject kvs)")
  case True
  then obtain kvs where v: "v = Some (JObject kvs)" by blast
  have "isl (merge_results (map (\<lambda>(k, x). merge_pair (kt (p @ [Key k]) (Some (JString k)))
                                     (vt (p @ [Key k]) (Some x))) kvs))
     \<longleftrightarrow> issues_of (merge_results (map (\<lambda>(k, x). merge_pair (kt (p @ [Key k]) (Some (JString k)))
                                     (vt (p @ [Key k]) (Some x))) kvs)) \<noteq> []"
    by (rule merge_results_exact) (auto intro!: merge_pair_exact assms)
  then show ?thesis
    unfolding z_record_def v by simp
next
  case False
  then show ?thesis
    by (simp add: z_record_def split: option.splits json.splits)
qed

lemma z_object1_exact:
  assumes "\<And>p v. isl (t p v) \<longleftrightarrow> issues_of (t p v) \<noteq> []"
  shows "isl (z_object1 k t mk p v) \<longleftrightarrow> issues_of (z_object1 k t mk p v) \<noteq> []"
  using assms by (simp add: z_object1_def split: option.splits json.splits)

lemma issues_of_case_pair [simp]:
  "issues_of (case r of Inl is \<Rightarrow> Inl is | Inr (a, b) \<Rightarrow> Inr (f a b)) = issues_of r"
  by (cases r) auto

lemma isl_case_pair [simp]:
  "isl (case r of Inl is \<Rightarrow> Inl is | Inr (a, b) \<Rightarrow> Inr (f a b)) = isl r"
  by (cases r) auto

lemma z_object2_exact:
  assumes "\<And>p v. isl (t1 p v) \<longleftrightarrow> issues_of (t1 p v) \<noteq> []"
    and "\<And>p v. isl (t2 p v) \<longleftrightarrow> issues_of (t2 p v) \<noteq> []"
  shows "isl (z_object2 k1 t1 k2 t2 mk p v) \<longleftrightarrow> issues_of (z_object2 k1 t1 k2 t2 mk p v) \<noteq> []"
proof (cases "\<exists>kvs. v = Some (JObject kvs)")
  case True
  then obtain kvs where v: "v = Some (JObject kvs)" by blast
  show ?thesis
    unfolding z_object2_def v
    by (simp add: merge_pair_exact assms)
next
  case False
  then show ?thesis
    by (simp add: z_object2_def split: option.splits json.splits)
qed

lemma features_schema_exact:
  "isl (features_schema p v) \<longleftrightarrow> issues_of (features_schema p v) \<noteq> []"
  unfolding features_schema_def
  by (intro z_default_exact z_optional_exact z_record_exact z_enum_exact z_boolean_exact)

lemma disabled_schema_exact:
  "isl (disabled_schema p v) \<longleftrightarrow> issues_of (disabled_schema p v) \<noteq> []"
  unfolding disabled_schema_def
  by (intro z_default_exact z_optional_exact z_array_exact z_string_exact)

lemma tools_schema_exact:
  "isl (tools_schema p v) \<longleftrightarrow> issues_of (tools_schema p v) \<noteq> []"
  unfolding tools_schema_def
  by (intro z_default_exact z_optional_exact z_object1_exact disabled_schema_exact)

lemma ToolsConfigSchema_exact:
  "isl (ToolsConfigSchema p v) \<longleftrightarrow> issues_of (ToolsConfigSchema p v) \<noteq> []"
  unfolding ToolsConfigSchema_def
  by (intro z_default_exact z_object2_exact features_schema_exact tools_schema_exact)

text \<open>
  The same for \<^verbatim>\<open>tools.disabled\<close>, for \<^verbatim>\<open>tools\<close> and for the whole schema:
  the places of the issues are the places the specification lists, in the same order.
\<close>

lemma element_paths:
  "map path (concat (map (\<lambda>(i, x). issues_of (z_string (p @ [Idx i]) (Some x))) (enumerate n xs)))
   = concat (map (\<lambda>(i, x). if is_string x then [] else [p @ [Idx i]]) (enumerate n xs))"
  by (induction xs arbitrary: n) (auto simp: z_string_issues)

lemma disabled_schema_paths:
  "map path (issues_of (disabled_schema p v)) = spec_disabled_violations p v"
proof (cases v)
  case None
  then show ?thesis
    by (simp add: disabled_schema_def spec_disabled_violations_def z_default_def
        z_optional_def z_array_def)
next
  case (Some j)
  then show ?thesis
    by (cases j)
      (simp_all add: disabled_schema_def spec_disabled_violations_def z_default_def
        z_optional_def z_array_def issues_of_merge_results comp_def case_prod_unfold
        element_paths [unfolded case_prod_unfold])
qed

lemma tools_schema_paths:
  "map path (issues_of (tools_schema p v)) = spec_tools_violations p v"
proof (cases v)
  case None
  then show ?thesis
    by (simp add: tools_schema_def spec_tools_violations_def z_default_def
        z_optional_def z_object1_def disabled_schema_paths spec_disabled_violations_def)
next
  case (Some j)
  then show ?thesis
    by (cases j)
      (simp_all add: tools_schema_def spec_tools_violations_def z_default_def
        z_optional_def z_object1_def disabled_schema_paths)
qed

lemma ToolsConfigSchema_paths:
  "map path (issues_of (ToolsConfigSchema_parse v)) = spec_violations v"
proof (cases v)
  case None
  then show ?thesis
    by (simp add: ToolsConfigSchema_parse_def ToolsConfigSchema_def spec_violations_def
        z_default_def z_object2_def issues_of_merge_pair features_schema_paths
        tools_schema_paths spec_features_violations_def spec_tools_violations_def)
next
  case (Some j)
  then show ?thesis
    by (cases j)
      (simp_all add: ToolsConfigSchema_parse_def ToolsConfigSchema_def spec_violations_def
        z_default_def z_object2_def issues_of_merge_pair features_schema_paths
        tools_schema_paths)
qed

lemma ToolsConfigSchema_isl:
  "isl (ToolsConfigSchema_parse v) \<longleftrightarrow> spec_violations v \<noteq> []"
  using ToolsConfigSchema_exact [of "[]" v] ToolsConfigSchema_paths [of v]
  by (auto simp: ToolsConfigSchema_parse_def)

text \<open>What the schema returns on an array of strings, on an object, and on nothing.\<close>

lemma strings_accepted:
  "merge_results (map (\<lambda>(i, x). z_string (p @ [Idx i]) (Some x)) (enumerate n (map JString ss)))
   = Inr ss"
  by (induction ss arbitrary: n) (simp_all add: z_string_def)

lemma disabled_schema_strings:
  "disabled_schema p (Some (JArray (map JString ss))) = Inr (Some ss)"
  by (simp add: disabled_schema_def z_default_def z_optional_def z_array_def strings_accepted)

lemma tools_schema_strings:
  "map_of tkvs ''disabled'' = Some (JArray (map JString ss)) \<Longrightarrow>
   tools_schema p (Some (JObject tkvs)) = Inr (Some \<lparr>disabled = Some ss\<rparr>)"
  by (simp add: tools_schema_def z_default_def z_optional_def z_object1_def
      disabled_schema_strings)

lemma parse_object:
  "ToolsConfigSchema_parse (Some (JObject kvs)) =
     (case merge_pair (features_schema [Key ''features''] (map_of kvs ''features''))
                      (tools_schema [Key ''tools''] (map_of kvs ''tools'')) of
        Inl is \<Rightarrow> Inl is
      | Inr (f, t) \<Rightarrow> Inr \<lparr>features = f, tools = t\<rparr>)"
  by (simp add: ToolsConfigSchema_parse_def ToolsConfigSchema_def z_default_def z_object2_def)

lemma parse_absent:
  "ToolsConfigSchema_parse (None :: 'n json option) =
   ToolsConfigSchema_parse (Some (JObject [] :: 'n json))"
  by (simp add: ToolsConfigSchema_parse_def ToolsConfigSchema_def z_default_def)

lemma features_schema_absent: "features_schema p None = Inr (Some Map.empty)"
  by (simp add: features_schema_def z_default_def z_optional_def z_record_def)

lemma tools_schema_absent: "tools_schema p None = Inr (Some \<lparr>disabled = Some []\<rparr>)"
  by (simp add: tools_schema_def disabled_schema_def z_default_def z_optional_def
      z_object1_def z_array_def)

lemma parse_empty_object:
  "ToolsConfigSchema_parse (Some (JObject [])) =
     Inr \<lparr>features = Some Map.empty, tools = Some \<lparr>disabled = Some []\<rparr>\<rparr>"
  by (simp add: parse_object features_schema_absent tools_schema_absent merge_pair_def)

lemma map_of_filter_keys:
  "map_of (filter (\<lambda>(k, _). P k) kvs) k = (if P k then map_of kvs k else None)"
  by (induction kvs) auto

lemma violation_member:
  assumes "(k, x) \<in> set kvs" and "k \<notin> set vs \<or> \<not> is_bool x"
  shows "p @ [Key k] \<in> set (concat (map (\<lambda>(k, x).
       (if k \<in> set vs then [] else [p @ [Key k]])
       @ (if is_bool x then [] else [p @ [Key k]])) kvs))"
proof -
  let ?g = "\<lambda>(k, x). (if k \<in> set vs then [] else [p @ [Key k]])
                     @ (if is_bool x then [] else [p @ [Key k]])"
  from assms(2) have "p @ [Key k] \<in> set (?g (k, x))" by auto
  moreover from assms(1) have "?g (k, x) \<in> set (map ?g kvs)" by (simp only: set_map) (rule imageI)
  ultimately show ?thesis unfolding set_concat by blast
qed

text \<open>What the schema returns is a normalized configuration.\<close>

lemma features_schema_present: "features_schema p v = Inr f \<Longrightarrow> f \<noteq> None"
  by (auto simp: features_schema_def z_default_def z_optional_def split: option.splits sum.splits)

lemma merge_results_Inr: "merge_results rs = Inr as \<Longrightarrow> rs = map Inr as"
  by (induction rs arbitrary: as) (auto split: sum.splits)

lemma dom_foldl_store:
  "dom (foldl (\<lambda>m (k, a). m(k \<mapsto> a)) m0 pairs) = dom m0 \<union> fst ` set pairs"
  by (induction pairs arbitrary: m0) auto

lemma z_record_keys:
  fixes kvs :: "(string \<times> 'n json) list"
  assumes "z_record (z_enum vs) valueType p (Some (JObject kvs)) = Inr m"
  shows "dom m \<subseteq> set vs"
proof -
  let ?g = "\<lambda>(k, x). merge_pair (z_enum vs (p @ [Key k]) (Some (JString k :: 'n json)))
                                (valueType (p @ [Key k]) (Some x))"
  from assms obtain pairs where merged: "merge_results (map ?g kvs) = Inr pairs"
    and m: "m = foldl (\<lambda>m (k, a). m(k \<mapsto> a)) Map.empty pairs"
    by (auto simp: z_record_def split: sum.splits)
  from merged have all: "map ?g kvs = map Inr pairs" by (rule merge_results_Inr)
  have "fst ` set pairs \<subseteq> set vs"
  proof
    fix k' assume "k' \<in> fst ` set pairs"
    then obtain a where "(k', a) \<in> set pairs" by auto
    then have "Inr (k', a) \<in> set (map ?g kvs)" unfolding all by simp
    then obtain k x where "?g (k, x) = Inr (k', a)" by auto
    then have "z_enum vs (p @ [Key k]) (Some (JString k :: 'n json)) = Inr k'"
      by (auto simp: merge_pair_def split: sum.splits)
    then show "k' \<in> set vs" by (auto simp: z_enum_def split: if_splits)
  qed
  with m show ?thesis by (simp add: dom_foldl_store)
qed

lemma features_schema_keys:
  fixes v :: "'n json option"
  assumes "features_schema p v = Inr (Some fs)"
  shows "dom fs \<subseteq> set (map FeatureName_str FEATURE_NAMES)"
proof -
  have "\<exists>kvs :: (string \<times> 'n json) list.
    z_record (z_enum (map FeatureName_str FEATURE_NAMES)) z_boolean p (Some (JObject kvs))
       = Inr fs"
  proof (cases v)
    case None
    with assms show ?thesis
      by (auto simp: features_schema_def z_default_def z_optional_def split: sum.splits)
  next
    case (Some j)
    show ?thesis
    proof (cases j)
      case (JObject kvs)
      with Some assms show ?thesis
        by (auto simp: features_schema_def z_default_def z_optional_def split: sum.splits)
    qed (use Some assms in
        \<open>auto simp: features_schema_def z_default_def z_optional_def z_record_def\<close>)
  qed
  then show ?thesis using z_record_keys by blast
qed

lemma disabled_schema_present: "disabled_schema p v = Inr d \<Longrightarrow> d \<noteq> None"
  by (auto simp: disabled_schema_def z_default_def z_optional_def split: option.splits sum.splits)

lemma tools_schema_present:
  "tools_schema p v = Inr t \<Longrightarrow> \<exists>ds. t = Some \<lparr>disabled = Some ds\<rparr>"
  using disabled_schema_present
  by (fastforce simp: tools_schema_def z_default_def z_optional_def z_object1_def
      split: option.splits sum.splits json.splits)

lemma parse_normalized:
  fixes v :: "'n json option"
  assumes ok: "ToolsConfigSchema_parse v = Inr c"
  shows "normalized c"
proof -
  have "\<exists>kvs :: (string \<times> 'n json) list. ToolsConfigSchema_parse (Some (JObject kvs)) = Inr c"
  proof (cases v)
    case None
    with ok have "ToolsConfigSchema_parse (Some (JObject [] :: 'n json)) = Inr c"
      by (simp add: parse_absent)
    then show ?thesis by blast
  next
    case (Some j)
    with ok show ?thesis
      by (cases j)
        (auto simp add: ToolsConfigSchema_parse_def ToolsConfigSchema_def z_default_def
          z_object2_def)
  qed
  then obtain kvs :: "(string \<times> 'n json) list"
    where "ToolsConfigSchema_parse (Some (JObject kvs)) = Inr c" by blast
  then obtain f t where c: "c = \<lparr>features = f, tools = t\<rparr>"
    and f: "features_schema [Key ''features''] (map_of kvs ''features'') = Inr f"
    and t: "tools_schema [Key ''tools''] (map_of kvs ''tools'') = Inr t"
    by (auto simp: parse_object merge_pair_def split: sum.splits)
  from f obtain fs where fs: "f = Some fs"
    using features_schema_present by blast
  from f [unfolded fs] have "dom fs \<subseteq> set (map FeatureName_str FEATURE_NAMES)"
    by (rule features_schema_keys)
  moreover from t obtain ds where "t = Some \<lparr>disabled = Some ds\<rparr>"
    using tools_schema_present by blast
  ultimately show ?thesis using c fs by (simp add: normalized_iff del: set_map)
qed

text \<open>
  Claim C8.  A \<^verbatim>\<open>features\<close> object with a key outside the feature enumeration or
  with a value that is not a boolean fails validation, with an issue at the path of that
  key.  \<^verbatim>\<open>tools.disabled\<close> accepts any list of strings, whatever the catalog
  contains: when the \<^verbatim>\<open>features\<close> part validates, the result carries exactly those
  strings.  A missing top-level value and the empty object both validate to the
  configuration with no feature entry and no disabled tool.
\<close>

theorem schema_validation:
  "(map_of (kvs :: (string \<times> 'n json) list) ''features'' = Some (JObject fkvs)
      \<and> (k, x) \<in> set fkvs
      \<and> (k \<notin> set (map FeatureName_str FEATURE_NAMES) \<or> \<not> is_bool x) \<longrightarrow>
      (\<exists>is. ToolsConfigSchema_parse (Some (JObject kvs)) = Inl is
            \<and> [Key ''features'', Key k] \<in> set (map path is)))
   \<and> (features_schema [Key ''features''] (map_of kvs ''features'') = Inr f
      \<and> map_of kvs ''tools'' = Some (JObject tkvs)
      \<and> map_of tkvs ''disabled'' = Some (JArray (map JString ss)) \<longrightarrow>
      ToolsConfigSchema_parse (Some (JObject kvs)) =
        Inr \<lparr>features = f, tools = Some \<lparr>disabled = Some ss\<rparr>\<rparr>)
   \<and> ToolsConfigSchema_parse (None :: 'n json option) =
        Inr \<lparr>features = Some Map.empty, tools = Some \<lparr>disabled = Some []\<rparr>\<rparr>
   \<and> ToolsConfigSchema_parse (Some (JObject [] :: 'n json)) =
        Inr \<lparr>features = Some Map.empty, tools = Some \<lparr>disabled = Some []\<rparr>\<rparr>"
proof (intro conjI impI)
  assume bad: "map_of kvs ''features'' = Some (JObject fkvs) \<and> (k, x) \<in> set fkvs
      \<and> (k \<notin> set (map FeatureName_str FEATURE_NAMES) \<or> \<not> is_bool x)"
  let ?r = "ToolsConfigSchema_parse (Some (JObject kvs))"
  from bad have "[Key ''features'', Key k]
      \<in> set (spec_features_violations [Key ''features''] (map_of kvs ''features''))"
    using violation_member
      [of k x fkvs "map FeatureName_str FEATURE_NAMES" "[Key ''features'']"]
    by (simp add: spec_features_violations_def del: set_map set_concat)
  then have mem: "[Key ''features'', Key k] \<in> set (spec_violations (Some (JObject kvs)))"
    by (simp add: spec_violations_def)
  then have "isl ?r" by (auto simp: ToolsConfigSchema_isl)
  then obtain "is" where r: "?r = Inl is" by (cases ?r) auto
  with mem ToolsConfigSchema_paths [of "Some (JObject kvs)"]
  have "[Key ''features'', Key k] \<in> set (map path is)" by simp
  with r show "\<exists>is. ?r = Inl is \<and> [Key ''features'', Key k] \<in> set (map path is)" by blast
next
  assume "features_schema [Key ''features''] (map_of kvs ''features'') = Inr f
      \<and> map_of kvs ''tools'' = Some (JObject tkvs)
      \<and> map_of tkvs ''disabled'' = Some (JArray (map JString ss))"
  then show "ToolsConfigSchema_parse (Some (JObject kvs)) =
        Inr \<lparr>features = f, tools = Some \<lparr>disabled = Some ss\<rparr>\<rparr>"
    by (simp add: parse_object tools_schema_strings merge_pair_def)
next
  show "ToolsConfigSchema_parse (None :: 'n json option) =
        Inr \<lparr>features = Some Map.empty, tools = Some \<lparr>disabled = Some []\<rparr>\<rparr>"
    by (simp add: parse_absent parse_empty_object)
next
  show "ToolsConfigSchema_parse (Some (JObject [] :: 'n json)) =
        Inr \<lparr>features = Some Map.empty, tools = Some \<lparr>disabled = Some []\<rparr>\<rparr>"
    by (rule parse_empty_object)
qed

theorem schema_validation_witness:
  "(\<exists>is. ToolsConfigSchema_parse
            (Some (JObject [(''features'', JObject [(''invalid-feature'', JBool True)])]
               :: int json)) = Inl is
         \<and> [Key ''features'', Key ''invalid-feature''] \<in> set (map path is))
   \<and> ToolsConfigSchema_parse
        (Some (JObject [(''tools'', JObject [(''disabled'', JArray (map JString [''no_such_tool'']))])]
           :: int json))
      = Inr \<lparr>features = Some Map.empty, tools = Some \<lparr>disabled = Some [''no_such_tool'']\<rparr>\<rparr>"
proof -
  have not_a_feature: "''invalid-feature'' \<notin> set (map FeatureName_str FEATURE_NAMES)"
    by (simp add: FEATURE_NAMES_def)
  have first: "\<exists>is. ToolsConfigSchema_parse
            (Some (JObject [(''features'', JObject [(''invalid-feature'', JBool True)])]
               :: int json)) = Inl is
         \<and> [Key ''features'', Key ''invalid-feature''] \<in> set (map path is)"
    using not_a_feature
      schema_validation
        [of "[(''features'', JObject [(''invalid-feature'', JBool True)])]
               :: (string \<times> int json) list"
            "[(''invalid-feature'', JBool True)]" "''invalid-feature''" "JBool True"]
    by simp
  have second: "ToolsConfigSchema_parse
        (Some (JObject [(''tools'', JObject [(''disabled'', JArray (map JString [''no_such_tool'']))])]
           :: int json))
      = Inr \<lparr>features = Some Map.empty, tools = Some \<lparr>disabled = Some [''no_such_tool'']\<rparr>\<rparr>"
    using schema_validation
        [of "[(''tools'', JObject [(''disabled'', JArray (map JString [''no_such_tool'']))])]
               :: (string \<times> int json) list"
            _ _ _ "Some Map.empty"
            "[(''disabled'', JArray (map JString [''no_such_tool'']))]" "[''no_such_tool'']"]
    by (simp add: features_schema_absent)
  from first second show ?thesis by (rule conjI)
qed

text \<open>
  Claim C10.  Top-level keys other than \<^verbatim>\<open>features\<close> and \<^verbatim>\<open>tools\<close> do not make
  validation fail and do not reach the result: validating an object gives the same
  result as validating it with every other key removed.  In particular an object with
  unknown keys only validates to the configuration with no feature entry and no
  disabled tool.
\<close>

theorem unknown_keys_stripped:
  "ToolsConfigSchema_parse (Some (JObject kvs)) =
     ToolsConfigSchema_parse
       (Some (JObject (filter (\<lambda>(k, _). k = ''features'' \<or> k = ''tools'') kvs)))
   \<and> (filter (\<lambda>(k, _). k = ''features'' \<or> k = ''tools'') kvs = [] \<longrightarrow>
        ToolsConfigSchema_parse (Some (JObject kvs)) =
          Inr \<lparr>features = Some Map.empty, tools = Some \<lparr>disabled = Some []\<rparr>\<rparr>)"
proof -
  have eq: "ToolsConfigSchema_parse (Some (JObject kvs)) =
     ToolsConfigSchema_parse
       (Some (JObject (filter (\<lambda>(k, _). k = ''features'' \<or> k = ''tools'') kvs)))"
    by (simp add: parse_object map_of_filter_keys)
  then show ?thesis by (auto simp: parse_empty_object)
qed

theorem unknown_keys_stripped_witness:
  "ToolsConfigSchema_parse
     (Some (JObject [(''logLevel'', JString ''debug''),
                     (''features'', JObject [(''wikis'', JBool False)])] :: int json))
   = ToolsConfigSchema_parse
       (Some (JObject [(''features'', JObject [(''wikis'', JBool False)])] :: int json))
   \<and> ToolsConfigSchema_parse (Some (JObject [(''logLevel'', JString ''debug'')] :: int json))
     = Inr \<lparr>features = Some Map.empty, tools = Some \<lparr>disabled = Some []\<rparr>\<rparr>"
  using unknown_keys_stripped
      [of "[(''logLevel'', JString ''debug''),
            (''features'', JObject [(''wikis'', JBool False)])] :: (string \<times> int json) list"]
    unknown_keys_stripped [of "[(''logLevel'', JString ''debug'')] :: (string \<times> int json) list"]
  by (simp add: parse_empty_object)

section \<open>Properties of the loader\<close>

text \<open>
  Under the default configuration everything is enabled, and the loader returns
  normalized configurations only.
\<close>

lemma default_all_enabled:
  "isFeatureEnabled f DEFAULT_TOOLS_CONFIG" "isToolEnabled t DEFAULT_TOOLS_CONFIG"
  by (simp_all add: isFeatureEnabled_def isFeatureEnabled_at_def isToolEnabled_def
      DEFAULT_TOOLS_CONFIG_def split: option.splits)

lemma default_normalized: "normalized DEFAULT_TOOLS_CONFIG"
  by (simp add: normalized_def DEFAULT_TOOLS_CONFIG_def)

lemma load_normalized: "loadToolsConfig h configPath = (w, Inr c) \<Longrightarrow> normalized c"
  by (auto simp: loadToolsConfig_def Let_def default_normalized parse_normalized
      split: if_splits sum.splits)

lemma sample_host_sel:
  "env_AZURE_DEVOPS_TOOLS_CONFIG (sample_host env ex rd) = env"
  "cwd (sample_host env ex rd) = ''/srv/app''"
  "path_join (sample_host env ex rd) a b = a @ ''/'' @ b"
  "existsSync (sample_host env ex rd) = ex"
  "readFileSync (sample_host env ex rd) = rd"
  "JSON_parse (sample_host env ex rd) = sample_parse"
  by (simp_all add: sample_host_def)

text \<open>
  Claim C4.  When the resolved path does not exist, \<^verbatim>\<open>loadToolsConfig\<close> throws
  nothing and returns \<^verbatim>\<open>DEFAULT_TOOLS_CONFIG\<close>, the configuration with no feature
  entry and no disabled tool, under which every feature and every tool is enabled; it
  writes nothing to the diagnostic stream.
\<close>

theorem missing_file_default:
  "\<not> existsSync h (effectivePath h configPath) \<longrightarrow>
     loadToolsConfig h configPath = ([], Inr DEFAULT_TOOLS_CONFIG)
     \<and> DEFAULT_TOOLS_CONFIG = \<lparr>features = Some Map.empty, tools = Some \<lparr>disabled = Some []\<rparr>\<rparr>
     \<and> (\<forall>f. isFeatureEnabled f DEFAULT_TOOLS_CONFIG = True)
     \<and> (\<forall>t. isToolEnabled t DEFAULT_TOOLS_CONFIG = True)"
  by (simp add: loadToolsConfig_def Let_def default_all_enabled)
    (simp add: DEFAULT_TOOLS_CONFIG_def)

theorem missing_file_default_witness:
  "\<not> existsSync (sample_host None (\<lambda>p. False) (\<lambda>p. Inl 13))
       (effectivePath (sample_host None (\<lambda>p. False) (\<lambda>p. Inl 13)) None)
   \<and> loadToolsConfig (sample_host None (\<lambda>p. False) (\<lambda>p. Inl 13)) None
       = ([], Inr \<lparr>features = Some Map.empty, tools = Some \<lparr>disabled = Some []\<rparr>\<rparr>)"
  using missing_file_default [of "sample_host None (\<lambda>p. False) (\<lambda>p. Inl 13)" None]
  by (simp add: sample_host_def)

text \<open>
  The texts the loader builds, written out: \<^verbatim>\<open>join\<close> puts the separator between
  the elements, the message of an invalid file has one formatted line for each issue,
  and a line has the dotted path and the message of the issue.  The two messages start
  differently, so one is never the other.
\<close>

lemma join_text:
  "join sep xs = (case xs of [] \<Rightarrow> [] | x # ys \<Rightarrow> x @ concat (map (\<lambda>y. sep @ y) ys))"
  by (induction sep xs rule: join.induct) simp_all

lemma seg_str_text: "seg_str s = (case s of Key k \<Rightarrow> k | Idx n \<Rightarrow> string_of_nat n)"
  by (cases s) simp_all

lemma format_issue_text:
  "format_issue i =
     ''  - ''
     @ (case path i of
          [] \<Rightarrow> []
        | x # xs \<Rightarrow>
            (case x of Key k \<Rightarrow> k | Idx n \<Rightarrow> string_of_nat n)
            @ concat (map (\<lambda>y. ''.'' @ (case y of Key k \<Rightarrow> k | Idx n \<Rightarrow> string_of_nat n)) xs))
     @ '': '' @ message i"
  by (simp add: format_issue_def join_text seg_str_text comp_def split: list.splits)

lemma invalid_config_message_text:
  "invalid_config_message p (i # rest) =
     ''Invalid tools config file at '' @ p @ '':'' @ [CHR 0x0A]
     @ format_issue i @ concat (map (\<lambda>r. [CHR 0x0A] @ format_issue r) rest)"
  by (simp add: invalid_config_message_def join_text comp_def)

lemma invalid_config_message_header:
  "\<exists>rest. invalid_config_message p is
     = ''Invalid tools config file at '' @ p @ '':'' @ [CHR 0x0A] @ rest"
  by (simp add: invalid_config_message_def)

lemma config_message_not_json:
  "invalid_config_message q is \<noteq> ''Invalid JSON in tools config file at '' @ p @ m"
  "''Invalid JSON in tools config file at '' @ p @ m \<noteq> invalid_config_message q is"
  by (simp_all add: invalid_config_message_def)

lemma load_result:
  assumes "existsSync h (effectivePath h configPath)"
  shows "snd (loadToolsConfig h configPath) =
     (case readFileSync h (effectivePath h configPath) of
        Inl e \<Rightarrow> Inl (Rethrown e)
      | Inr s \<Rightarrow>
          (case JSON_parse h s of
             Inl msg \<Rightarrow>
               Inl (Error (''Invalid JSON in tools config file at ''
                           @ effectivePath h configPath @ '': '' @ msg))
           | Inr j \<Rightarrow>
               (case ToolsConfigSchema_parse (Some j) of
                  Inl is \<Rightarrow> Inl (Error (invalid_config_message (effectivePath h configPath) is))
                | Inr c \<Rightarrow> Inr c)))"
  using assms
  by (simp add: loadToolsConfig_def Let_def invalid_json_message_def split: sum.splits)

text \<open>
  Claim C5.  For a resolved path that exists: an error of the read is thrown again as it
  is.  A syntax error of the parser becomes an \<^verbatim>\<open>Error\<close> whose message is
  \<^verbatim>\<open>Invalid JSON in tools config file at\<close>, the path, a colon and the parser's
  message.  A failed validation becomes an \<^verbatim>\<open>Error\<close> whose message is
  \<^verbatim>\<open>Invalid tools config file at\<close>, the path, a colon, and then one line for each
  issue, each on a line of its own: two blanks, a dash, the path of the issue with its
  keys and (decimal) indices separated by dots, a colon, the message of the issue.  The
  issues are, in order, one for each place where the document breaks the schema, so all
  of them and not the first only.  The first kind of \<^verbatim>\<open>Error\<close> is thrown exactly
  when the content read is not valid JSON, the second exactly when it is valid JSON that
  breaks the schema.
\<close>

theorem load_failures:
  assumes "existsSync h (effectivePath h configPath)"
  shows
    "(\<forall>e. readFileSync h (effectivePath h configPath) = Inl e \<longrightarrow>
        snd (loadToolsConfig h configPath) = Inl (Rethrown e))
     \<and> (\<forall>s msg. readFileSync h (effectivePath h configPath) = Inr s \<and> JSON_parse h s = Inl msg \<longrightarrow>
        snd (loadToolsConfig h configPath)
          = Inl (Error (''Invalid JSON in tools config file at ''
                        @ effectivePath h configPath @ '': '' @ msg)))
     \<and> (\<forall>s j is. readFileSync h (effectivePath h configPath) = Inr s \<and> JSON_parse h s = Inr j
          \<and> ToolsConfigSchema_parse (Some j) = Inl is \<longrightarrow>
        is \<noteq> [] \<and> map path is = spec_violations (Some j)
        \<and> (let segment = (\<lambda>s. case s of Key k \<Rightarrow> k | Idx n \<Rightarrow> string_of_nat n);
                dotted = (\<lambda>segs. case segs of
                                    [] \<Rightarrow> []
                                  | x # xs \<Rightarrow> segment x @ concat (map (\<lambda>y. ''.'' @ segment y) xs));
                line = (\<lambda>i. ''  - '' @ dotted (path i) @ '': '' @ message i)
            in snd (loadToolsConfig h configPath)
                 = Inl (Error (''Invalid tools config file at ''
                               @ effectivePath h configPath @ '':'' @ [CHR 0x0A]
                               @ line (hd is)
                               @ concat (map (\<lambda>i. [CHR 0x0A] @ line i) (tl is))))))
     \<and> (\<forall>n. string_of_nat n =
            (if n < 10 then [''0123456789'' ! n]
             else string_of_nat (n div 10) @ [''0123456789'' ! (n mod 10)]))
     \<and> ((\<exists>msg. snd (loadToolsConfig h configPath)
               = Inl (Error (''Invalid JSON in tools config file at ''
                             @ effectivePath h configPath @ '': '' @ msg)))
        \<longleftrightarrow> (\<exists>s. readFileSync h (effectivePath h configPath) = Inr s \<and> isl (JSON_parse h s)))
     \<and> ((\<exists>rest. snd (loadToolsConfig h configPath)
               = Inl (Error (''Invalid tools config file at ''
                             @ effectivePath h configPath @ '':'' @ [CHR 0x0A] @ rest)))
        \<longleftrightarrow> (\<exists>s j. readFileSync h (effectivePath h configPath) = Inr s \<and> JSON_parse h s = Inr j
                  \<and> spec_violations (Some j) \<noteq> []))"
proof (intro conjI allI impI)
  fix e assume "readFileSync h (effectivePath h configPath) = Inl e"
  then show "snd (loadToolsConfig h configPath) = Inl (Rethrown e)"
    by (simp add: load_result [OF assms])
next
  fix s msg
  assume "readFileSync h (effectivePath h configPath) = Inr s \<and> JSON_parse h s = Inl msg"
  then show "snd (loadToolsConfig h configPath)
          = Inl (Error (''Invalid JSON in tools config file at ''
                        @ effectivePath h configPath @ '': '' @ msg))"
    by (simp add: load_result [OF assms])
next
  fix s j "is"
  assume a: "readFileSync h (effectivePath h configPath) = Inr s \<and> JSON_parse h s = Inr j
          \<and> ToolsConfigSchema_parse (Some j) = Inl is"
  from a ToolsConfigSchema_exact [of "[]" "Some j"] show nonempty: "is \<noteq> []"
    by (simp add: ToolsConfigSchema_parse_def)
  from a ToolsConfigSchema_paths [of "Some j"] show "map path is = spec_violations (Some j)"
    by simp
  from nonempty obtain i rest where "is": "is = i # rest" by (cases "is") auto
  from a have "snd (loadToolsConfig h configPath)
      = Inl (Error (invalid_config_message (effectivePath h configPath) is))"
    by (simp add: load_result [OF assms])
  then show "let segment = (\<lambda>s. case s of Key k \<Rightarrow> k | Idx n \<Rightarrow> string_of_nat n);
                dotted = (\<lambda>segs. case segs of
                                    [] \<Rightarrow> []
                                  | x # xs \<Rightarrow> segment x @ concat (map (\<lambda>y. ''.'' @ segment y) xs));
                line = (\<lambda>i. ''  - '' @ dotted (path i) @ '': '' @ message i)
            in snd (loadToolsConfig h configPath)
                 = Inl (Error (''Invalid tools config file at ''
                               @ effectivePath h configPath @ '':'' @ [CHR 0x0A]
                               @ line (hd is)
                               @ concat (map (\<lambda>i. [CHR 0x0A] @ line i) (tl is))))"
    unfolding "is" Let_def
    by (simp only: invalid_config_message_text format_issue_text list.sel)
next
  fix n
  show "string_of_nat n =
            (if n < 10 then [''0123456789'' ! n]
             else string_of_nat (n div 10) @ [''0123456789'' ! (n mod 10)])"
    by (rule string_of_nat.simps)
next
  show "(\<exists>msg. snd (loadToolsConfig h configPath)
               = Inl (Error (''Invalid JSON in tools config file at ''
                             @ effectivePath h configPath @ '': '' @ msg)))
        \<longleftrightarrow> (\<exists>s. readFileSync h (effectivePath h configPath) = Inr s \<and> isl (JSON_parse h s))"
  proof
    assume "\<exists>msg. snd (loadToolsConfig h configPath)
               = Inl (Error (''Invalid JSON in tools config file at ''
                             @ effectivePath h configPath @ '': '' @ msg))"
    then obtain msg where thrown: "snd (loadToolsConfig h configPath)
               = Inl (Error (''Invalid JSON in tools config file at ''
                             @ effectivePath h configPath @ '': '' @ msg))" by blast
    show "\<exists>s. readFileSync h (effectivePath h configPath) = Inr s \<and> isl (JSON_parse h s)"
    proof (cases "readFileSync h (effectivePath h configPath)")
      case (Inl e)
      with thrown show ?thesis by (simp add: load_result [OF assms])
    next
      case read: (Inr s)
      show ?thesis
      proof (cases "JSON_parse h s")
        case (Inl m)
        with read show ?thesis by simp
      next
        case parsed: (Inr j)
        show ?thesis
        proof (cases "ToolsConfigSchema_parse (Some j)")
          case (Inl "is")
          from thrown have False
            by (simp only: load_result [OF assms] read parsed Inl sum.case sum.inject
                thrown.inject config_message_not_json)
          then show ?thesis ..
        next
          case (Inr c)
          with thrown read parsed show ?thesis by (simp add: load_result [OF assms])
        qed
      qed
    qed
  next
    assume "\<exists>s. readFileSync h (effectivePath h configPath) = Inr s \<and> isl (JSON_parse h s)"
    then show "\<exists>msg. snd (loadToolsConfig h configPath)
               = Inl (Error (''Invalid JSON in tools config file at ''
                             @ effectivePath h configPath @ '': '' @ msg))"
      unfolding load_result [OF assms] by (auto split: sum.splits)
  qed
next
  have "(\<exists>rest. snd (loadToolsConfig h configPath)
               = Inl (Error (''Invalid tools config file at ''
                             @ effectivePath h configPath @ '':'' @ [CHR 0x0A] @ rest)))
        \<longleftrightarrow> (\<exists>s j. readFileSync h (effectivePath h configPath) = Inr s \<and> JSON_parse h s = Inr j
                  \<and> isl (ToolsConfigSchema_parse (Some j)))"
  proof
    assume "\<exists>rest. snd (loadToolsConfig h configPath)
               = Inl (Error (''Invalid tools config file at ''
                             @ effectivePath h configPath @ '':'' @ [CHR 0x0A] @ rest))"
    then show "\<exists>s j. readFileSync h (effectivePath h configPath) = Inr s \<and> JSON_parse h s = Inr j
                  \<and> isl (ToolsConfigSchema_parse (Some j))"
      unfolding load_result [OF assms] by (auto split: sum.splits)
  next
    assume "\<exists>s j. readFileSync h (effectivePath h configPath) = Inr s \<and> JSON_parse h s = Inr j
                  \<and> isl (ToolsConfigSchema_parse (Some j))"
    then obtain s j "is" where "readFileSync h (effectivePath h configPath) = Inr s"
      and "JSON_parse h s = Inr j" and "ToolsConfigSchema_parse (Some j) = Inl is"
      by (auto simp: isl_def)
    then have "snd (loadToolsConfig h configPath)
      = Inl (Error (invalid_config_message (effectivePath h configPath) is))"
      by (simp add: load_result [OF assms])
    with invalid_config_message_header [of "effectivePath h configPath" "is"]
    show "\<exists>rest. snd (loadToolsConfig h configPath)
               = Inl (Error (''Invalid tools config file at ''
                             @ effectivePath h configPath @ '':'' @ [CHR 0x0A] @ rest))"
      by auto
  qed
  then show "(\<exists>rest. snd (loadToolsConfig h configPath)
               = Inl (Error (''Invalid tools config file at ''
                             @ effectivePath h configPath @ '':'' @ [CHR 0x0A] @ rest)))
        \<longleftrightarrow> (\<exists>s j. readFileSync h (effectivePath h configPath) = Inr s \<and> JSON_parse h s = Inr j
                  \<and> spec_violations (Some j) \<noteq> [])"
    by (simp add: ToolsConfigSchema_isl)
qed

theorem load_failures_witness:
  \<open>snd (loadToolsConfig
          (sample_host None (\<lambda>p. True) (\<lambda>p. Inr ''{ invalid json }'')) (Some ''/c.json''))
     = Inl (Error ''Invalid JSON in tools config file at /c.json: Unexpected token i in JSON at position 2'')
   \<and> snd (loadToolsConfig (sample_host None (\<lambda>p. True) (\<lambda>p. Inr [])) (Some ''/c.json''))
     = Inl (Error ''Invalid JSON in tools config file at /c.json: Unexpected end of JSON input'')
   \<and> snd (loadToolsConfig
            (sample_host None (\<lambda>p. True)
               (\<lambda>p. Inr ''{"features":{"invalid-feature":true,"wikis":1},"tools":{"disabled":["a",2,"b",null]}}''))
            (Some ''/c.json''))
     = Inl (Error
         (''Invalid tools config file at /c.json:'' @ [CHR 0x0A]
          @ ''  - features.invalid-feature: Invalid enum value. Expected ''
          @ [CHR 0x27] @ ''users'' @ [CHR 0x27] @ '' | ''
          @ [CHR 0x27] @ ''organizations'' @ [CHR 0x27] @ '' | ''
          @ [CHR 0x27] @ ''projects'' @ [CHR 0x27] @ '' | ''
          @ [CHR 0x27] @ ''repositories'' @ [CHR 0x27] @ '' | ''
          @ [CHR 0x27] @ ''work-items'' @ [CHR 0x27] @ '' | ''
          @ [CHR 0x27] @ ''search'' @ [CHR 0x27] @ '' | ''
          @ [CHR 0x27] @ ''pull-requests'' @ [CHR 0x27] @ '' | ''
          @ [CHR 0x27] @ ''pipelines'' @ [CHR 0x27] @ '' | ''
          @ [CHR 0x27] @ ''wikis'' @ [CHR 0x27]
          @ '', received '' @ [CHR 0x27] @ ''invalid-feature'' @ [CHR 0x27] @ [CHR 0x0A]
          @ ''  - features.wikis: Expected boolean, received number'' @ [CHR 0x0A]
          @ ''  - tools.disabled.1: Expected string, received number'' @ [CHR 0x0A]
          @ ''  - tools.disabled.3: Expected string, received null''))
   \<and> snd (loadToolsConfig (sample_host None (\<lambda>p. True) (\<lambda>p. Inl 13)) (Some ''/c.json''))
     = Inl (Rethrown 13)\<close>
proof -
  let ?bad = \<open>sample_host None (\<lambda>p. True) (\<lambda>p. Inr ''{ invalid json }'')\<close>
  let ?empty = \<open>sample_host None (\<lambda>p. True) (\<lambda>p. Inr [])\<close>
  let ?text = \<open>''{"features":{"invalid-feature":true,"wikis":1},"tools":{"disabled":["a",2,"b",null]}}''\<close>
  let ?four = \<open>sample_host None (\<lambda>p. True) (\<lambda>p. Inr ?text)\<close>
  let ?err = \<open>sample_host None (\<lambda>p. True) (\<lambda>p. Inl 13)\<close>
  let ?doc = \<open>JObject
                  [(''features'',
                      JObject [(''invalid-feature'', JBool True), (''wikis'', JNumber 1)]),
                   (''tools'',
                      JObject [(''disabled'',
                                 JArray [JString ''a'', JNumber 2, JString ''b'', JNull])])]
              :: int json\<close>
  let ?issues = \<open>[invalid_enum_value [Key ''features'', Key ''invalid-feature'']
                    (map FeatureName_str FEATURE_NAMES) ''invalid-feature'',
                  invalid_type [Key ''features'', Key ''wikis''] ''boolean''
                    (Some (JNumber 1 :: int json)),
                  invalid_type [Key ''tools'', Key ''disabled'', Idx 1] ''string''
                    (Some (JNumber 2 :: int json)),
                  invalid_type [Key ''tools'', Key ''disabled'', Idx 3] ''string''
                    (Some (JNull :: int json))]\<close>
  have path: \<open>effectivePath (sample_host None ex rd) (Some ''/c.json'') = ''/c.json''\<close> for ex rd
    by (simp add: effectivePath_def or_else_def)
  have ex: \<open>existsSync (sample_host None (\<lambda>p. True) rd) q\<close> for rd q
    by (simp add: sample_host_sel)
  have parsed: \<open>sample_parse ?text = Inr ?doc\<close>
    by (simp add: sample_parse_def)
  have issues: \<open>ToolsConfigSchema_parse (Some ?doc) = Inl ?issues\<close>
    by (simp add: ToolsConfigSchema_parse_def ToolsConfigSchema_def features_schema_def
        tools_schema_def disabled_schema_def z_default_def z_optional_def z_object2_def
        z_object1_def z_record_def z_array_def z_enum_def z_boolean_def z_string_def
        merge_pair_def FEATURE_NAMES_def eval_nat_numeral)
  from load_failures [of ?bad \<open>Some ''/c.json''\<close>, OF ex]
  have first: \<open>snd (loadToolsConfig ?bad (Some ''/c.json''))
      = Inl (Error ''Invalid JSON in tools config file at /c.json: Unexpected token i in JSON at position 2'')\<close>
    by (simp add: path sample_host_sel sample_parse_def)
  from load_failures [of ?empty \<open>Some ''/c.json''\<close>, OF ex]
  have second: \<open>snd (loadToolsConfig ?empty (Some ''/c.json''))
      = Inl (Error ''Invalid JSON in tools config file at /c.json: Unexpected end of JSON input'')\<close>
    by (simp add: path sample_host_sel sample_parse_def)
  from load_failures [of ?four \<open>Some ''/c.json''\<close>, OF ex, THEN conjunct2, THEN conjunct2,
      THEN conjunct1, rule_format, of ?text ?doc ?issues]
  have third: \<open>snd (loadToolsConfig ?four (Some ''/c.json''))
     = Inl (Error
         (''Invalid tools config file at /c.json:'' @ [CHR 0x0A]
          @ ''  - features.invalid-feature: Invalid enum value. Expected ''
          @ [CHR 0x27] @ ''users'' @ [CHR 0x27] @ '' | ''
          @ [CHR 0x27] @ ''organizations'' @ [CHR 0x27] @ '' | ''
          @ [CHR 0x27] @ ''projects'' @ [CHR 0x27] @ '' | ''
          @ [CHR 0x27] @ ''repositories'' @ [CHR 0x27] @ '' | ''
          @ [CHR 0x27] @ ''work-items'' @ [CHR 0x27] @ '' | ''
          @ [CHR 0x27] @ ''search'' @ [CHR 0x27] @ '' | ''
          @ [CHR 0x27] @ ''pull-requests'' @ [CHR 0x27] @ '' | ''
          @ [CHR 0x27] @ ''pipelines'' @ [CHR 0x27] @ '' | ''
          @ [CHR 0x27] @ ''wikis'' @ [CHR 0x27]
          @ '', received '' @ [CHR 0x27] @ ''invalid-feature'' @ [CHR 0x27] @ [CHR 0x0A]
          @ ''  - features.wikis: Expected boolean, received number'' @ [CHR 0x0A]
          @ ''  - tools.disabled.1: Expected string, received number'' @ [CHR 0x0A]
          @ ''  - tools.disabled.3: Expected string, received null''))\<close>
    by (simp add: path sample_host_sel parsed issues Let_def invalid_enum_value_def
        invalid_type_def joinValues_def FEATURE_NAMES_def)
  from load_failures [of ?err \<open>Some ''/c.json''\<close>, OF ex]
  have fourth: \<open>snd (loadToolsConfig ?err (Some ''/c.json'')) = Inl (Rethrown 13)\<close>
    by (simp add: path sample_host_sel)
  from first second third fourth show ?thesis by (intro conjI)
qed

text \<open>
  Claim C7, as amended.  The path is resolved in this order: the explicit path
  parameter when it is a non-empty string; otherwise the value of
  \<^verbatim>\<open>AZURE_DEVOPS_TOOLS_CONFIG\<close> when that is set to a non-empty string; otherwise
  \<^verbatim>\<open>tools.config.json\<close> joined to the current working directory.
\<close>

theorem path_resolution:
  "(p \<noteq> [] \<longrightarrow> effectivePath h (Some p) = p)
   \<and> ((configPath = None \<or> configPath = Some []) \<and> env_AZURE_DEVOPS_TOOLS_CONFIG h = Some e
        \<and> e \<noteq> [] \<longrightarrow> effectivePath h configPath = e)
   \<and> ((configPath = None \<or> configPath = Some [])
        \<and> (env_AZURE_DEVOPS_TOOLS_CONFIG h = None \<or> env_AZURE_DEVOPS_TOOLS_CONFIG h = Some [])
        \<longrightarrow> effectivePath h configPath = path_join h (cwd h) ''tools.config.json'')"
  by (auto simp: effectivePath_def or_else_def)

theorem path_resolution_witness:
  "''/explicit.json'' \<noteq> []
   \<and> effectivePath (sample_host (Some ''/etc/tools.json'') (\<lambda>p. False) (\<lambda>p. Inl 13))
       (Some ''/explicit.json'') = ''/explicit.json''
   \<and> effectivePath (sample_host (Some ''/etc/tools.json'') (\<lambda>p. False) (\<lambda>p. Inl 13)) None
       = ''/etc/tools.json''
   \<and> effectivePath (sample_host None (\<lambda>p. False) (\<lambda>p. Inl 13)) None
       = ''/srv/app/tools.config.json''"
  using path_resolution
      [of "''/explicit.json''" "sample_host (Some ''/etc/tools.json'') (\<lambda>p. False) (\<lambda>p. Inl 13)"
          None "''/etc/tools.json''"]
    path_resolution [of _ "sample_host None (\<lambda>p. False) (\<lambda>p. Inl 13)" None]
  by (simp add: sample_host_def)

text \<open>
  The claim as it was written fails on the empty string: an explicit path parameter
  that is empty is not used, and a variable that is set to the empty string is not used
  either.
\<close>

theorem path_resolution_counterexample:
  "effectivePath (sample_host (Some ''/etc/tools.json'') (\<lambda>p. False) (\<lambda>p. Inl 13)) (Some [])
     \<noteq> []
   \<and> effectivePath (sample_host (Some []) (\<lambda>p. False) (\<lambda>p. Inl 13)) None \<noteq> []"
  by (simp add: effectivePath_def or_else_def sample_host_def)

text \<open>
  Claim C9.  An empty string as the explicit path is treated as no path: the resolved
  path, and with it the whole result of \<^verbatim>\<open>loadToolsConfig\<close>, is the one obtained
  with no path parameter, that is, the value of the environment variable when it is set
  and not empty, and the default file name in the working directory otherwise.
\<close>

theorem empty_path_falls_through:
  "effectivePath h (Some []) = effectivePath h None
   \<and> loadToolsConfig h (Some []) = loadToolsConfig h None
   \<and> effectivePath h (Some []) =
       (case env_AZURE_DEVOPS_TOOLS_CONFIG h of
          None \<Rightarrow> path_join h (cwd h) ''tools.config.json''
        | Some e \<Rightarrow> if e = [] then path_join h (cwd h) ''tools.config.json'' else e)"
  by (simp add: loadToolsConfig_def Let_def effectivePath_def or_else_def)

theorem empty_path_falls_through_witness:
  "effectivePath (sample_host (Some ''/etc/tools.json'') (\<lambda>p. False) (\<lambda>p. Inl 13)) (Some [])
     = ''/etc/tools.json''
   \<and> effectivePath (sample_host None (\<lambda>p. False) (\<lambda>p. Inl 13)) (Some [])
     = ''/srv/app/tools.config.json''
   \<and> loadToolsConfig (sample_host (Some ''/etc/tools.json'') (\<lambda>p. False) (\<lambda>p. Inl 13)) (Some [])
     = loadToolsConfig (sample_host (Some ''/etc/tools.json'') (\<lambda>p. False) (\<lambda>p. Inl 13)) None"
proof -
  note with_env = empty_path_falls_through
      [of "sample_host (Some ''/etc/tools.json'') (\<lambda>p. False) (\<lambda>p. Inl 13)"]
  note no_env = empty_path_falls_through [of "sample_host None (\<lambda>p. False) (\<lambda>p. Inl 13)"]
  from with_env [THEN conjunct2, THEN conjunct2] have
    "effectivePath (sample_host (Some ''/etc/tools.json'') (\<lambda>p. False) (\<lambda>p. Inl 13)) (Some [])
       = ''/etc/tools.json''"
    by (simp add: sample_host_sel)
  moreover from no_env [THEN conjunct2, THEN conjunct2] have
    "effectivePath (sample_host None (\<lambda>p. False) (\<lambda>p. Inl 13)) (Some [])
       = ''/srv/app/tools.config.json''"
    by (simp add: sample_host_sel)
  moreover from with_env [THEN conjunct2, THEN conjunct1] have
    "loadToolsConfig (sample_host (Some ''/etc/tools.json'') (\<lambda>p. False) (\<lambda>p. Inl 13)) (Some [])
     = loadToolsConfig (sample_host (Some ''/etc/tools.json'') (\<lambda>p. False) (\<lambda>p. Inl 13)) None" .
  ultimately show ?thesis by simp
qed

end
